theory Spec2Isabelle
  imports Complex_Main "HOL-Library.Monad_Syntax"
begin

section \<open>The bilateral nearest-neighbour operator of \<^verbatim>\<open>tf_nndistance_2.cpp\<close>\<close>

text \<open>
  The development embeds the CPU kernels of \<^verbatim>\<open>vvn/ops/src/tf_nndistance_2.cpp\<close>:
  the static function \<^verbatim>\<open>nnsearch\<close>, \<^verbatim>\<open>NnDistance2Op::Compute\<close> (forward) and
  \<^verbatim>\<open>NnDistance2GradOp::Compute\<close> (backward).

  Modelling decisions.
  \<^item> A tensor is its shape together with its row-major flat buffer. The kernels work on
    the flat buffers with the index arithmetic of the source, \<^verbatim>\<open>(i*n+j)*6+c\<close>.
  \<^item> Every read and write of a buffer is bounds-checked in the model: an access outside
    the buffer (undefined behaviour in C++) is the value \<open>None\<close> of the kernel and the
    status \<open>Fault\<close> of the operator.
  \<^item> \<^verbatim>\<open>float\<close> and \<^verbatim>\<open>double\<close> are one ordered ring \<open>'a\<close> with exact arithmetic;
    rounding, infinities and NaN are outside the model, and the conversions between the
    two formats are identities.
  \<^item> Loop counters and dimensions are natural numbers (every tensor is taken to have fewer
    than \<open>2^31\<close> elements, so the \<^verbatim>\<open>int\<close> index arithmetic of the source does not wrap);
    the entries of the index tensors are \<^verbatim>\<open>int32\<close> values the caller supplies and are
    integers, possibly negative.
  \<^item> \<^verbatim>\<open>allocate_output\<close> returns uninitialised memory: the model takes the initial contents
    of every output slot as a parameter.
\<close>

subsection \<open>Tensors, status, operator results\<close>

record 'a tensor =
  shape :: "nat list"
  flat :: "'a list"

definition dims :: "'a tensor \<Rightarrow> nat" where
  "dims t = length (shape t)"

definition dim_size :: "'a tensor \<Rightarrow> nat \<Rightarrow> nat" where
  "dim_size t d = shape t ! d"

definition num_elements :: "nat list \<Rightarrow> nat" where
  "num_elements shp = prod_list shp"

text \<open>A tensor of the framework always holds as many elements as its shape says.\<close>

definition wf_tensor :: "'a tensor \<Rightarrow> bool" where
  "wf_tensor t = (length (flat t) = num_elements (shape t))"

datatype status = OK | InvalidArgument string | Fault

text \<open>
  What a call of \<^verbatim>\<open>Compute\<close> leaves in the \<^verbatim>\<open>OpKernelContext\<close>: the status, the shapes
  of the outputs allocated so far (in slot order), and the outputs when the call ran
  to its end.
\<close>

record 'o op_result =
  status :: status
  allocated :: "nat list list"
  outputs :: "'o option"

record 'a fwd_outputs =
  out_dist1 :: "'a tensor"
  out_idx1 :: "int tensor"
  out_dist2 :: "'a tensor"
  out_idx2 :: "int tensor"

record 'a grad_outputs =
  out_grad_xyz1 :: "'a tensor"
  out_grad_xyz2 :: "'a tensor"

text \<open>\<^verbatim>\<open>OP_REQUIRES(context, cond, errors::InvalidArgument(msg))\<close> with a false condition.\<close>

definition op_requires_failed :: "string \<Rightarrow> 'o op_result" where
  "op_requires_failed msg = \<lparr>status = InvalidArgument msg, allocated = [], outputs = None\<rparr>"

text \<open>\<^verbatim>\<open>allocate_output\<close>: a tensor of the shape, with the contents the memory happens to have.\<close>

definition allocate_output :: "(nat \<Rightarrow> 'a) \<Rightarrow> nat list \<Rightarrow> 'a tensor" where
  "allocate_output junk shp = \<lparr>shape = shp, flat = map junk [0..<num_elements shp]\<rparr>"

subsection \<open>Buffers and loops\<close>

text \<open>\<^verbatim>\<open>buf[k]\<close> as a read, and \<^verbatim>\<open>buf[k] = v\<close>, \<^verbatim>\<open>buf[k] += v\<close>, \<^verbatim>\<open>buf[k] -= v\<close>.\<close>

definition rd :: "'a list \<Rightarrow> int \<Rightarrow> 'a option" where
  "rd buf k = (if 0 \<le> k \<and> k < int (length buf) then Some (buf ! nat k) else None)"

definition wr :: "'a list \<Rightarrow> int \<Rightarrow> 'a \<Rightarrow> 'a list option" where
  "wr buf k v = (if 0 \<le> k \<and> k < int (length buf) then Some (buf[nat k := v]) else None)"

definition add_at :: "'a::plus list \<Rightarrow> int \<Rightarrow> 'a \<Rightarrow> 'a list option" where
  "add_at buf k v = do { old \<leftarrow> rd buf k; wr buf k (old + v) }"

definition sub_at :: "'a::minus list \<Rightarrow> int \<Rightarrow> 'a \<Rightarrow> 'a list option" where
  "sub_at buf k v = do { old \<leftarrow> rd buf k; wr buf k (old - v) }"

text \<open>\<^verbatim>\<open>for (int k = k0; k < n; k++) body\<close>, the body failing on an access out of bounds.\<close>

function for_loop :: "nat \<Rightarrow> nat \<Rightarrow> (nat \<Rightarrow> 's \<Rightarrow> 's option) \<Rightarrow> 's \<Rightarrow> 's option" where
  "for_loop k n body s =
     (if k < n then (case body k s of None \<Rightarrow> None | Some s' \<Rightarrow> for_loop (Suc k) n body s')
      else Some s)"
  by pat_completeness auto
termination
  by (relation "measure (\<lambda>(k, n, body, s). n - k)") auto

declare for_loop.simps [simp del]

subsection \<open>The forward kernel \<^verbatim>\<open>nnsearch\<close>\<close>

text \<open>
  The body of the loop over \<open>k\<close> (lines 35 to 45): the state is \<open>(best, besti)\<close>.
\<close>

definition nnsearch_inner ::
  "nat \<Rightarrow> nat \<Rightarrow> 'a::linordered_idom list \<Rightarrow> 'a \<Rightarrow> 'a \<Rightarrow> 'a \<Rightarrow> 'a \<Rightarrow> 'a \<Rightarrow> 'a \<Rightarrow>
   nat \<Rightarrow> 'a \<times> int \<Rightarrow> ('a \<times> int) option" where
  "nnsearch_inner i m xyz2 x1 y1 z1 x1_1 y1_1 z1_1 k s =
     (case s of (best, besti) \<Rightarrow> do {
        x2 \<leftarrow> map_option (\<lambda>v. v - x1) (rd xyz2 (int ((i * m + k) * 6 + 0)));
        y2 \<leftarrow> map_option (\<lambda>v. v - y1) (rd xyz2 (int ((i * m + k) * 6 + 1)));
        z2 \<leftarrow> map_option (\<lambda>v. v - z1) (rd xyz2 (int ((i * m + k) * 6 + 2)));
        x2_1 \<leftarrow> map_option (\<lambda>v. v - x1_1) (rd xyz2 (int ((i * m + k) * 6 + 3)));
        y2_1 \<leftarrow> map_option (\<lambda>v. v - y1_1) (rd xyz2 (int ((i * m + k) * 6 + 4)));
        z2_1 \<leftarrow> map_option (\<lambda>v. v - z1_1) (rd xyz2 (int ((i * m + k) * 6 + 5)));
        let d = x2 * x2 + y2 * y2 + z2 * z2 + x2_1 * x2_1 + y2_1 * y2_1 + z2_1 * z2_1;
        if k = 0 \<or> d < best then Some (d, int k) else Some (best, besti)
      })"

text \<open>
  The body of the loop over \<open>j\<close> (lines 26 to 48): the state is the pair of output
  buffers \<open>(dist, idx)\<close>, here \<open>(dist_buf, idx_buf)\<close>.
\<close>

definition nnsearch_point ::
  "nat \<Rightarrow> nat \<Rightarrow> 'a::linordered_idom list \<Rightarrow> 'a list \<Rightarrow> nat \<Rightarrow> nat \<Rightarrow>
   'a list \<times> int list \<Rightarrow> ('a list \<times> int list) option" where
  "nnsearch_point n m xyz1 xyz2 i j s =
     (case s of (dist_buf, idx_buf) \<Rightarrow> do {
        x1 \<leftarrow> rd xyz1 (int ((i * n + j) * 6 + 0));
        y1 \<leftarrow> rd xyz1 (int ((i * n + j) * 6 + 1));
        z1 \<leftarrow> rd xyz1 (int ((i * n + j) * 6 + 2));
        x1_1 \<leftarrow> rd xyz1 (int ((i * n + j) * 6 + 3));
        y1_1 \<leftarrow> rd xyz1 (int ((i * n + j) * 6 + 4));
        z1_1 \<leftarrow> rd xyz1 (int ((i * n + j) * 6 + 5));
        (best, besti) \<leftarrow> for_loop 0 m (nnsearch_inner i m xyz2 x1 y1 z1 x1_1 y1_1 z1_1) (0, 0);
        dist_buf \<leftarrow> wr dist_buf (int (i * n + j)) best;
        idx_buf \<leftarrow> wr idx_buf (int (i * n + j)) besti;
        Some (dist_buf, idx_buf)
      })"

definition nnsearch ::
  "nat \<Rightarrow> nat \<Rightarrow> nat \<Rightarrow> 'a::linordered_idom list \<Rightarrow> 'a list \<Rightarrow> 'a list \<Rightarrow> int list \<Rightarrow>
   ('a list \<times> int list) option" where
  "nnsearch b n m xyz1 xyz2 dist_buf idx_buf =
     for_loop 0 b (\<lambda>i. for_loop 0 n (nnsearch_point n m xyz1 xyz2 i)) (dist_buf, idx_buf)"

subsection \<open>\<^verbatim>\<open>NnDistance2Op::Compute\<close>\<close>

definition NnDistance2Op_Compute ::
  "(nat \<Rightarrow> nat \<Rightarrow> 'a) \<Rightarrow> (nat \<Rightarrow> nat \<Rightarrow> int) \<Rightarrow> 'a::linordered_idom tensor \<Rightarrow> 'a tensor \<Rightarrow>
   'a fwd_outputs op_result" where
  "NnDistance2Op_Compute junkf junki xyz1_tensor xyz2_tensor =
     (if dims xyz1_tensor \<noteq> 3 then
        op_requires_failed ''NnDistance requires xyz1 be of shape (batch,#points,6)''
      else if dim_size xyz1_tensor 2 \<noteq> 6 then
        op_requires_failed ''NnDistance only accepts 6d point set xyz1''
      else let b = dim_size xyz1_tensor 0; n = dim_size xyz1_tensor 1 in
      if dims xyz2_tensor \<noteq> 3 then
        op_requires_failed ''NnDistance requires xyz2 be of shape (batch,#points,6)''
      else if dim_size xyz2_tensor 2 \<noteq> 6 then
        op_requires_failed ''NnDistance only accepts 6d point set xyz2''
      else let m = dim_size xyz2_tensor 1 in
      if dim_size xyz2_tensor 0 \<noteq> b then
        op_requires_failed ''NnDistance expects xyz1 and xyz2 have same batch size''
      else let
        xyz1 = flat xyz1_tensor;
        xyz2 = flat xyz2_tensor;
        dist1_tensor = allocate_output (junkf 0) [b, n];
        idx1_tensor = allocate_output (junki 1) [b, n];
        dist2_tensor = allocate_output (junkf 2) [b, m];
        idx2_tensor = allocate_output (junki 3) [b, m];
        alloc = [[b, n], [b, n], [b, m], [b, m]]
      in
        (case nnsearch b n m xyz1 xyz2 (flat dist1_tensor) (flat idx1_tensor) of
           None \<Rightarrow> \<lparr>status = Fault, allocated = alloc, outputs = None\<rparr>
         | Some (d1, i1) \<Rightarrow>
        (case nnsearch b m n xyz2 xyz1 (flat dist2_tensor) (flat idx2_tensor) of
           None \<Rightarrow> \<lparr>status = Fault, allocated = alloc, outputs = None\<rparr>
         | Some (d2, i2) \<Rightarrow>
             \<lparr>status = OK, allocated = alloc,
              outputs = Some \<lparr>out_dist1 = dist1_tensor\<lparr>flat := d1\<rparr>,
                              out_idx1 = idx1_tensor\<lparr>flat := i1\<rparr>,
                              out_dist2 = dist2_tensor\<lparr>flat := d2\<rparr>,
                              out_idx2 = idx2_tensor\<lparr>flat := i2\<rparr>\<rparr>\<rparr>)))"

subsection \<open>\<^verbatim>\<open>NnDistance2GradOp::Compute\<close>\<close>

text \<open>
  The body of the first loop over \<open>j\<close> (lines 140 to 165), on the state
  \<open>(grad_xyz1, grad_xyz2)\<close>.
\<close>

definition grad_point1 ::
  "nat \<Rightarrow> nat \<Rightarrow> 'a::linordered_idom list \<Rightarrow> 'a list \<Rightarrow> 'a list \<Rightarrow> int list \<Rightarrow> nat \<Rightarrow> nat \<Rightarrow>
   'a list \<times> 'a list \<Rightarrow> ('a list \<times> 'a list) option" where
  "grad_point1 n m xyz1 xyz2 grad_dist1 idx1 i j s =
     (case s of (grad_xyz1, grad_xyz2) \<Rightarrow> do {
        x1 \<leftarrow> rd xyz1 (int ((i * n + j) * 6 + 0));
        y1 \<leftarrow> rd xyz1 (int ((i * n + j) * 6 + 1));
        z1 \<leftarrow> rd xyz1 (int ((i * n + j) * 6 + 2));
        x1_1 \<leftarrow> rd xyz1 (int ((i * n + j) * 6 + 3));
        y1_1 \<leftarrow> rd xyz1 (int ((i * n + j) * 6 + 4));
        z1_1 \<leftarrow> rd xyz1 (int ((i * n + j) * 6 + 5));
        j2 \<leftarrow> rd idx1 (int (i * n + j));
        x2 \<leftarrow> rd xyz2 ((int (i * m) + j2) * 6 + 0);
        y2 \<leftarrow> rd xyz2 ((int (i * m) + j2) * 6 + 1);
        z2 \<leftarrow> rd xyz2 ((int (i * m) + j2) * 6 + 2);
        x2_1 \<leftarrow> rd xyz2 ((int (i * m) + j2) * 6 + 3);
        y2_1 \<leftarrow> rd xyz2 ((int (i * m) + j2) * 6 + 4);
        z2_1 \<leftarrow> rd xyz2 ((int (i * m) + j2) * 6 + 5);
        g \<leftarrow> map_option (\<lambda>v. v * 2) (rd grad_dist1 (int (i * n + j)));
        grad_xyz1 \<leftarrow> add_at grad_xyz1 (int ((i * n + j) * 6 + 0)) (g * (x1 - x2));
        grad_xyz1 \<leftarrow> add_at grad_xyz1 (int ((i * n + j) * 6 + 1)) (g * (y1 - y2));
        grad_xyz1 \<leftarrow> add_at grad_xyz1 (int ((i * n + j) * 6 + 2)) (g * (z1 - z2));
        grad_xyz1 \<leftarrow> add_at grad_xyz1 (int ((i * n + j) * 6 + 3)) (g * (x1_1 - x2_1));
        grad_xyz1 \<leftarrow> add_at grad_xyz1 (int ((i * n + j) * 6 + 4)) (g * (y1_1 - y2_1));
        grad_xyz1 \<leftarrow> add_at grad_xyz1 (int ((i * n + j) * 6 + 5)) (g * (z1_1 - z2_1));
        grad_xyz2 \<leftarrow> sub_at grad_xyz2 ((int (i * m) + j2) * 6 + 0) (g * (x1 - x2));
        grad_xyz2 \<leftarrow> sub_at grad_xyz2 ((int (i * m) + j2) * 6 + 1) (g * (y1 - y2));
        grad_xyz2 \<leftarrow> sub_at grad_xyz2 ((int (i * m) + j2) * 6 + 2) (g * (z1 - z2));
        grad_xyz2 \<leftarrow> sub_at grad_xyz2 ((int (i * m) + j2) * 6 + 3) (g * (x1_1 - x2_1));
        grad_xyz2 \<leftarrow> sub_at grad_xyz2 ((int (i * m) + j2) * 6 + 4) (g * (y1_1 - y2_1));
        grad_xyz2 \<leftarrow> sub_at grad_xyz2 ((int (i * m) + j2) * 6 + 5) (g * (z1_1 - z2_1));
        Some (grad_xyz1, grad_xyz2)
      })"

text \<open>
  The body of the second loop over \<open>j\<close> (lines 168 to 193), on the same state: the
  source repeats the first body with the roles of the two point sets exchanged.
\<close>

definition grad_point2 ::
  "nat \<Rightarrow> nat \<Rightarrow> 'a::linordered_idom list \<Rightarrow> 'a list \<Rightarrow> 'a list \<Rightarrow> int list \<Rightarrow> nat \<Rightarrow> nat \<Rightarrow>
   'a list \<times> 'a list \<Rightarrow> ('a list \<times> 'a list) option" where
  "grad_point2 n m xyz1 xyz2 grad_dist2 idx2 i j s =
     (case s of (grad_xyz1, grad_xyz2) \<Rightarrow> do {
        x1 \<leftarrow> rd xyz2 (int ((i * m + j) * 6 + 0));
        y1 \<leftarrow> rd xyz2 (int ((i * m + j) * 6 + 1));
        z1 \<leftarrow> rd xyz2 (int ((i * m + j) * 6 + 2));
        x1_1 \<leftarrow> rd xyz2 (int ((i * m + j) * 6 + 3));
        y1_1 \<leftarrow> rd xyz2 (int ((i * m + j) * 6 + 4));
        z1_1 \<leftarrow> rd xyz2 (int ((i * m + j) * 6 + 5));
        j2 \<leftarrow> rd idx2 (int (i * m + j));
        x2 \<leftarrow> rd xyz1 ((int (i * n) + j2) * 6 + 0);
        y2 \<leftarrow> rd xyz1 ((int (i * n) + j2) * 6 + 1);
        z2 \<leftarrow> rd xyz1 ((int (i * n) + j2) * 6 + 2);
        x2_1 \<leftarrow> rd xyz1 ((int (i * n) + j2) * 6 + 3);
        y2_1 \<leftarrow> rd xyz1 ((int (i * n) + j2) * 6 + 4);
        z2_1 \<leftarrow> rd xyz1 ((int (i * n) + j2) * 6 + 5);
        g \<leftarrow> map_option (\<lambda>v. v * 2) (rd grad_dist2 (int (i * m + j)));
        grad_xyz2 \<leftarrow> add_at grad_xyz2 (int ((i * m + j) * 6 + 0)) (g * (x1 - x2));
        grad_xyz2 \<leftarrow> add_at grad_xyz2 (int ((i * m + j) * 6 + 1)) (g * (y1 - y2));
        grad_xyz2 \<leftarrow> add_at grad_xyz2 (int ((i * m + j) * 6 + 2)) (g * (z1 - z2));
        grad_xyz2 \<leftarrow> add_at grad_xyz2 (int ((i * m + j) * 6 + 3)) (g * (x1_1 - x2_1));
        grad_xyz2 \<leftarrow> add_at grad_xyz2 (int ((i * m + j) * 6 + 4)) (g * (y1_1 - y2_1));
        grad_xyz2 \<leftarrow> add_at grad_xyz2 (int ((i * m + j) * 6 + 5)) (g * (z1_1 - z2_1));
        grad_xyz1 \<leftarrow> sub_at grad_xyz1 ((int (i * n) + j2) * 6 + 0) (g * (x1 - x2));
        grad_xyz1 \<leftarrow> sub_at grad_xyz1 ((int (i * n) + j2) * 6 + 1) (g * (y1 - y2));
        grad_xyz1 \<leftarrow> sub_at grad_xyz1 ((int (i * n) + j2) * 6 + 2) (g * (z1 - z2));
        grad_xyz1 \<leftarrow> sub_at grad_xyz1 ((int (i * n) + j2) * 6 + 3) (g * (x1_1 - x2_1));
        grad_xyz1 \<leftarrow> sub_at grad_xyz1 ((int (i * n) + j2) * 6 + 4) (g * (y1_1 - y2_1));
        grad_xyz1 \<leftarrow> sub_at grad_xyz1 ((int (i * n) + j2) * 6 + 5) (g * (z1_1 - z2_1));
        Some (grad_xyz1, grad_xyz2)
      })"

text \<open>The loop over the batches (lines 138 to 195): both passes on the same two buffers.\<close>

definition grad_batch ::
  "nat \<Rightarrow> nat \<Rightarrow> 'a::linordered_idom list \<Rightarrow> 'a list \<Rightarrow> 'a list \<Rightarrow> int list \<Rightarrow> 'a list \<Rightarrow> int list \<Rightarrow>
   nat \<Rightarrow> 'a list \<times> 'a list \<Rightarrow> ('a list \<times> 'a list) option" where
  "grad_batch n m xyz1 xyz2 grad_dist1 idx1 grad_dist2 idx2 i s = do {
     s \<leftarrow> for_loop 0 n (grad_point1 n m xyz1 xyz2 grad_dist1 idx1 i) s;
     for_loop 0 m (grad_point2 n m xyz1 xyz2 grad_dist2 idx2 i) s
   }"

text \<open>Lines 134 to 195: the two zero-filling loops, then the loop over the batches.\<close>

definition nngrad ::
  "nat \<Rightarrow> nat \<Rightarrow> nat \<Rightarrow> 'a::linordered_idom list \<Rightarrow> 'a list \<Rightarrow> 'a list \<Rightarrow> int list \<Rightarrow> 'a list \<Rightarrow> int list \<Rightarrow>
   'a list \<Rightarrow> 'a list \<Rightarrow> ('a list \<times> 'a list) option" where
  "nngrad b n m xyz1 xyz2 grad_dist1 idx1 grad_dist2 idx2 grad_xyz1 grad_xyz2 = do {
     grad_xyz1 \<leftarrow> for_loop 0 (b * n * 6) (\<lambda>i g. wr g (int i) 0) grad_xyz1;
     grad_xyz2 \<leftarrow> for_loop 0 (b * m * 6) (\<lambda>i g. wr g (int i) 0) grad_xyz2;
     for_loop 0 b (grad_batch n m xyz1 xyz2 grad_dist1 idx1 grad_dist2 idx2) (grad_xyz1, grad_xyz2)
   }"

definition NnDistance2GradOp_Compute ::
  "(nat \<Rightarrow> nat \<Rightarrow> 'a) \<Rightarrow> 'a::linordered_idom tensor \<Rightarrow> 'a tensor \<Rightarrow> 'a tensor \<Rightarrow> int tensor \<Rightarrow>
   'a tensor \<Rightarrow> int tensor \<Rightarrow> 'a grad_outputs op_result" where
  "NnDistance2GradOp_Compute junkf xyz1_tensor xyz2_tensor grad_dist1_tensor idx1_tensor
       grad_dist2_tensor idx2_tensor =
     (if dims xyz1_tensor \<noteq> 3 then
        op_requires_failed ''NnDistance requires xyz1 be of shape (batch,#points,6)''
      else if dim_size xyz1_tensor 2 \<noteq> 6 then
        op_requires_failed ''NnDistance only accepts 6d point set xyz1''
      else let b = dim_size xyz1_tensor 0; n = dim_size xyz1_tensor 1 in
      if dims xyz2_tensor \<noteq> 3 then
        op_requires_failed ''NnDistance requires xyz2 be of shape (batch,#points,6)''
      else if dim_size xyz2_tensor 2 \<noteq> 6 then
        op_requires_failed ''NnDistance only accepts 6d point set xyz2''
      else let m = dim_size xyz2_tensor 1 in
      if dim_size xyz2_tensor 0 \<noteq> b then
        op_requires_failed ''NnDistance expects xyz1 and xyz2 have same batch size''
      else if shape grad_dist1_tensor \<noteq> [b, n] then
        op_requires_failed ''NnDistanceGrad requires grad_dist1 be of shape(batch,#points)''
      else if shape idx1_tensor \<noteq> [b, n] then
        op_requires_failed ''NnDistanceGrad requires idx1 be of shape(batch,#points)''
      else if shape grad_dist2_tensor \<noteq> [b, m] then
        op_requires_failed ''NnDistanceGrad requires grad_dist2 be of shape(batch,#points)''
      else if shape idx2_tensor \<noteq> [b, m] then
        op_requires_failed ''NnDistanceGrad requires idx2 be of shape(batch,#points)''
      else let
        grad_xyz1_tensor = allocate_output (junkf 0) [b, n, 6];
        grad_xyz2_tensor = allocate_output (junkf 1) [b, m, 6];
        alloc = [[b, n, 6], [b, m, 6]]
      in
        (case nngrad b n m (flat xyz1_tensor) (flat xyz2_tensor)
                (flat grad_dist1_tensor) (flat idx1_tensor)
                (flat grad_dist2_tensor) (flat idx2_tensor)
                (flat grad_xyz1_tensor) (flat grad_xyz2_tensor) of
           None \<Rightarrow> \<lparr>status = Fault, allocated = alloc, outputs = None\<rparr>
         | Some (g1, g2) \<Rightarrow>
             \<lparr>status = OK, allocated = alloc,
              outputs = Some \<lparr>out_grad_xyz1 = grad_xyz1_tensor\<lparr>flat := g1\<rparr>,
                              out_grad_xyz2 = grad_xyz2_tensor\<lparr>flat := g2\<rparr>\<rparr>\<rparr>))"

section \<open>Notions used to state the properties\<close>

subsection \<open>Well-formed calls\<close>

text \<open>
  The inputs of a forward call: two tensors of the framework with the shapes \<open>[B, N, 6]\<close> and
  \<open>[B, M, 6]\<close>; and the inputs of a backward call, with the four further tensors of the
  shapes \<open>[B, N]\<close> and \<open>[B, M]\<close>.
\<close>

definition fwd_accepted :: "'a tensor \<Rightarrow> 'a tensor \<Rightarrow> nat \<Rightarrow> nat \<Rightarrow> nat \<Rightarrow> bool" where
  "fwd_accepted xyz1_tensor xyz2_tensor B N M =
     (wf_tensor xyz1_tensor \<and> wf_tensor xyz2_tensor \<and>
      shape xyz1_tensor = [B, N, 6] \<and> shape xyz2_tensor = [B, M, 6])"

definition grad_accepted ::
  "'a tensor \<Rightarrow> 'a tensor \<Rightarrow> 'a tensor \<Rightarrow> int tensor \<Rightarrow> 'a tensor \<Rightarrow> int tensor \<Rightarrow> nat \<Rightarrow> nat \<Rightarrow> nat \<Rightarrow> bool" where
  "grad_accepted xyz1_tensor xyz2_tensor grad_dist1_tensor idx1_tensor grad_dist2_tensor idx2_tensor B N M =
     (fwd_accepted xyz1_tensor xyz2_tensor B N M \<and>
      wf_tensor grad_dist1_tensor \<and> wf_tensor idx1_tensor \<and>
      wf_tensor grad_dist2_tensor \<and> wf_tensor idx2_tensor \<and>
      shape grad_dist1_tensor = [B, N] \<and> shape idx1_tensor = [B, N] \<and>
      shape grad_dist2_tensor = [B, M] \<and> shape idx2_tensor = [B, M])"

text \<open>The shape preconditions, as the specification lists them.\<close>

definition fwd_shape_ok :: "'a tensor \<Rightarrow> 'a tensor \<Rightarrow> bool" where
  "fwd_shape_ok xyz1_tensor xyz2_tensor =
     (dims xyz1_tensor = 3 \<and> dims xyz2_tensor = 3 \<and>
      dim_size xyz1_tensor 2 = 6 \<and> dim_size xyz2_tensor 2 = 6 \<and>
      dim_size xyz1_tensor 0 = dim_size xyz2_tensor 0)"

definition grad_shape_ok ::
  "'a tensor \<Rightarrow> 'a tensor \<Rightarrow> 'a tensor \<Rightarrow> int tensor \<Rightarrow> 'a tensor \<Rightarrow> int tensor \<Rightarrow> bool" where
  "grad_shape_ok xyz1_tensor xyz2_tensor grad_dist1_tensor idx1_tensor grad_dist2_tensor idx2_tensor =
     (fwd_shape_ok xyz1_tensor xyz2_tensor \<and>
      shape grad_dist1_tensor = [dim_size xyz1_tensor 0, dim_size xyz1_tensor 1] \<and>
      shape idx1_tensor = [dim_size xyz1_tensor 0, dim_size xyz1_tensor 1] \<and>
      shape grad_dist2_tensor = [dim_size xyz1_tensor 0, dim_size xyz2_tensor 1] \<and>
      shape idx2_tensor = [dim_size xyz1_tensor 0, dim_size xyz2_tensor 1])"

subsection \<open>The forward pass\<close>

text \<open>
  The squared distance of line 41, between a point given by its six coordinates and point
  \<open>q\<close> of a buffer, with unchecked reads.
\<close>

definition dist6 :: "'a::linordered_idom \<Rightarrow> 'a \<Rightarrow> 'a \<Rightarrow> 'a \<Rightarrow> 'a \<Rightarrow> 'a \<Rightarrow> 'a list \<Rightarrow> nat \<Rightarrow> 'a" where
  "dist6 x1 y1 z1 x1_1 y1_1 z1_1 xyz2 q =
     (let x2 = xyz2 ! (q * 6 + 0) - x1;
          y2 = xyz2 ! (q * 6 + 1) - y1;
          z2 = xyz2 ! (q * 6 + 2) - z1;
          x2_1 = xyz2 ! (q * 6 + 3) - x1_1;
          y2_1 = xyz2 ! (q * 6 + 4) - y1_1;
          z2_1 = xyz2 ! (q * 6 + 5) - z1_1
      in x2 * x2 + y2 * y2 + z2 * z2 + x2_1 * x2_1 + y2_1 * y2_1 + z2_1 * z2_1)"

text \<open>
  The specification's \<open>squaredDist6D\<close>: the sum over the six coordinates of the squared
  coordinate differences, between point \<open>p\<close> of buffer \<open>A\<close> and point \<open>q\<close> of buffer \<open>B\<close>.
\<close>

definition squaredDist6D :: "'a::linordered_idom list \<Rightarrow> nat \<Rightarrow> 'a list \<Rightarrow> nat \<Rightarrow> 'a" where
  "squaredDist6D A p B q = (\<Sum>c<6. (A ! (p * 6 + c) - B ! (q * 6 + c))\<^sup>2)"

text \<open>
  The state \<open>(best, besti)\<close> of the loop over \<open>k\<close> after its first \<open>k\<close> iterations, for
  the distances \<open>d 0, d 1, \<dots>\<close>; and the pair written for point \<open>p\<close> of batch \<open>i\<close>.
\<close>

primrec nn_scan :: "(nat \<Rightarrow> 'a::linordered_idom) \<Rightarrow> nat \<Rightarrow> 'a \<times> int" where
  "nn_scan d 0 = (0, 0)"
| "nn_scan d (Suc k) =
     (case nn_scan d k of (best, besti) \<Rightarrow>
        if k = 0 \<or> d k < best then (d k, int k) else (best, besti))"

definition nn_result :: "nat \<Rightarrow> 'a::linordered_idom list \<Rightarrow> 'a list \<Rightarrow> nat \<Rightarrow> nat \<Rightarrow> 'a \<times> int" where
  "nn_result m xyz1 xyz2 i p =
     nn_scan (\<lambda>k. dist6 (xyz1 ! (p * 6 + 0)) (xyz1 ! (p * 6 + 1)) (xyz1 ! (p * 6 + 2))
                 (xyz1 ! (p * 6 + 3)) (xyz1 ! (p * 6 + 4)) (xyz1 ! (p * 6 + 5)) xyz2 (i * m + k)) m"

text \<open>A buffer whose first \<open>p\<close> cells have been written with \<open>f\<close>.\<close>

definition filled :: "(nat \<Rightarrow> 'v) \<Rightarrow> 'v list \<Rightarrow> nat \<Rightarrow> 'v list" where
  "filled f xs p = map (\<lambda>q. if q < p then f q else xs ! q) [0..<length xs]"

subsection \<open>The backward pass\<close>

text \<open>
  The specification's contribution of point \<open>j\<close> of batch \<open>i\<close> of set \<open>A\<close> (of \<open>n\<close> points
  a batch) to coordinate \<open>c\<close>: with \<open>k = index[i,j]\<close> and \<open>g = 2 * gradDistance[i,j]\<close>, it is
  \<open>g * (A[i,j,c] - B[i,k,c])\<close>, the point of \<open>B\<close> (of \<open>m\<close> points a batch) taken at the row-major
  offset the kernel computes.
\<close>

definition contrib ::
  "nat \<Rightarrow> nat \<Rightarrow> 'a::linordered_idom list \<Rightarrow> 'a list \<Rightarrow> 'a list \<Rightarrow> int list \<Rightarrow> nat \<Rightarrow> nat \<Rightarrow> nat \<Rightarrow> 'a" where
  "contrib n m A B gradDistance index i j c =
     (let k = index ! (i * n + j); g = 2 * gradDistance ! (i * n + j)
      in g * (A ! ((i * n + j) * 6 + c) - B ! (nat (int (i * m) + k) * 6 + c)))"

text \<open>
  Cell \<open>q\<close> of the first (\<open>True\<close>) or second (\<open>False\<close>) gradient buffer of a state; and what
  one iteration of the first loop over \<open>j\<close> adds to it.
\<close>

fun gval :: "'a list \<times> 'a list \<Rightarrow> bool \<times> nat \<Rightarrow> 'a" where
  "gval (g1, g2) (w, q) = (if w then g1 ! q else g2 ! q)"

definition delta1 ::
  "nat \<Rightarrow> nat \<Rightarrow> 'a::linordered_idom list \<Rightarrow> 'a list \<Rightarrow> 'a list \<Rightarrow> int list \<Rightarrow> nat \<Rightarrow> nat \<Rightarrow>
   bool \<times> nat \<Rightarrow> 'a" where
  "delta1 n m xyz1 xyz2 gd idx i j x =
     (case x of (w, q) \<Rightarrow>
        if w then (if q div 6 = i * n + j then contrib n m xyz1 xyz2 gd idx i j (q mod 6) else 0)
        else (if int (q div 6) = int (i * m) + idx ! (i * n + j)
              then - contrib n m xyz1 xyz2 gd idx i j (q mod 6) else 0))"

text \<open>
  Entry \<open>(i, j)\<close> of an index tensor of shape \<open>[b, n]\<close> addresses a point inside the flat
  buffer of a point set of shape \<open>[b, m, 6]\<close>; and all entries of both index tensors do.
\<close>

definition target_ok :: "nat \<Rightarrow> nat \<Rightarrow> nat \<Rightarrow> int list \<Rightarrow> nat \<Rightarrow> nat \<Rightarrow> bool" where
  "target_ok b n m idx i j =
     (0 \<le> int (i * m) + idx ! (i * n + j) \<and> int (i * m) + idx ! (i * n + j) < int (b * m))"

definition all_targets_ok :: "nat \<Rightarrow> nat \<Rightarrow> nat \<Rightarrow> int list \<Rightarrow> int list \<Rightarrow> bool" where
  "all_targets_ok b n m idx1 idx2 =
     (\<forall>i<b. (\<forall>j<n. target_ok b n m idx1 i j) \<and> (\<forall>j<m. target_ok b m n idx2 i j))"

text \<open>The sum of what all iterations of both passes add to a cell.\<close>

definition grad_total ::
  "nat \<Rightarrow> nat \<Rightarrow> nat \<Rightarrow> 'a::linordered_idom list \<Rightarrow> 'a list \<Rightarrow> 'a list \<Rightarrow> int list \<Rightarrow> 'a list \<Rightarrow> int list \<Rightarrow>
   bool \<times> nat \<Rightarrow> 'a" where
  "grad_total b n m xyz1 xyz2 gd1 idx1 gd2 idx2 x =
     (\<Sum>i<b. (\<Sum>j<n. delta1 n m xyz1 xyz2 gd1 idx1 i j x) +
             (\<Sum>j<m. delta1 m n xyz2 xyz1 gd2 idx2 i j (\<not> fst x, snd x)))"

subsection \<open>Memory contents for the examples\<close>

text \<open>What the uninitialised output buffers hold in the examples below.\<close>

definition ex_mem_f :: "nat \<Rightarrow> nat \<Rightarrow> real" where
  "ex_mem_f slot k = 99"

definition ex_mem_i :: "nat \<Rightarrow> nat \<Rightarrow> int" where
  "ex_mem_i slot k = - 1"

section \<open>Loops and buffers\<close>

text \<open>A loop is unrolled at its last iteration, which turns loop invariants into inductions on the bound.\<close>

lemma for_loop_ge: "n \<le> k \<Longrightarrow> for_loop k n body s = Some s"
  by (simp add: for_loop.simps)

lemma for_loop_snoc:
  "k \<le> n \<Longrightarrow> for_loop k (Suc n) body s = Option.bind (for_loop k n body s) (body n)"
proof (induction k n body s rule: for_loop.induct)
  case (1 k n body s)
  show ?case
  proof (cases "k < n")
    case True
    show ?thesis
    proof (cases "body k s")
      case None
      with True show ?thesis by (simp add: for_loop.simps [of k])
    next
      case (Some s')
      with True 1 have "for_loop (Suc k) (Suc n) body s' = Option.bind (for_loop (Suc k) n body s') (body n)"
        by simp
      with True Some show ?thesis by (simp add: for_loop.simps [of k])
    qed
  next
    case False
    with 1(2) have "k = n" by simp
    then show ?thesis
      by (simp add: for_loop.simps [of n] for_loop_ge split: option.splits)
  qed
qed

lemma for_loop_0 [simp]: "for_loop 0 0 body s = Some s"
  by (simp add: for_loop_ge)

lemma for_loop_Suc: "for_loop 0 (Suc n) body s = Option.bind (for_loop 0 n body s) (body n)"
  by (simp add: for_loop_snoc)

lemma rd_int: "rd buf (int k) = (if k < length buf then Some (buf ! k) else None)"
  by (simp add: rd_def)

lemma wr_int: "wr buf (int k) v = (if k < length buf then Some (buf[k := v]) else None)"
  by (simp add: wr_def)

section \<open>The forward pass\<close>

subsection \<open>The scan over the candidates\<close>

text \<open>
  With exact arithmetic, the value of line 41 is the specification's sum of squared
  coordinate differences. The precision in which the source forms it is outside this model.
\<close>

lemma dist6_squaredDist6D:
  "dist6 (xyz1 ! (p * 6 + 0)) (xyz1 ! (p * 6 + 1)) (xyz1 ! (p * 6 + 2)) (xyz1 ! (p * 6 + 3))
     (xyz1 ! (p * 6 + 4)) (xyz1 ! (p * 6 + 5)) xyz2 q = squaredDist6D xyz1 p xyz2 q"
  by (simp add: dist6_def squaredDist6D_def Let_def eval_nat_numeral power2_eq_square algebra_simps)

lemma nnsearch_inner_step:
  assumes "(i * m + k) * 6 + 5 < length xyz2"
  shows "nnsearch_inner i m xyz2 x1 y1 z1 x1_1 y1_1 z1_1 k (best, besti) =
         Some (if k = 0 \<or> dist6 x1 y1 z1 x1_1 y1_1 z1_1 xyz2 (i * m + k) < best
               then (dist6 x1 y1 z1 x1_1 y1_1 z1_1 xyz2 (i * m + k), int k) else (best, besti))"
  unfolding nnsearch_inner_def rd_int dist6_def Let_def using assms by simp

lemma nnsearch_inner_loop:
  assumes "(i * m + m') * 6 \<le> length xyz2"
  shows "for_loop 0 m' (nnsearch_inner i m xyz2 x1 y1 z1 x1_1 y1_1 z1_1) (0, 0) =
         Some (nn_scan (\<lambda>k. dist6 x1 y1 z1 x1_1 y1_1 z1_1 xyz2 (i * m + k)) m')"
  using assms
proof (induction m')
  case 0
  show ?case by simp
next
  case (Suc m')
  from Suc.prems have b: "(i * m + m') * 6 + 5 < length xyz2" by simp
  from Suc.prems have "(i * m + m') * 6 \<le> length xyz2" by simp
  from Suc.IH [OF this] show ?case
    by (cases "nn_scan (\<lambda>k. dist6 x1 y1 z1 x1_1 y1_1 z1_1 xyz2 (i * m + k)) m'")
       (simp add: for_loop_Suc nnsearch_inner_step [OF b])
qed

lemma nn_scan_spec:
  "0 < m \<Longrightarrow> \<exists>k<m. nn_scan d m = (d k, int k) \<and> (\<forall>k'<m. d k \<le> d k') \<and> (\<forall>k'<k. d k < d k')"
proof (induction m)
  case 0
  then show ?case by simp
next
  case (Suc m)
  show ?case
  proof (cases "m = 0")
    case True
    then show ?thesis by simp
  next
    case False
    with Suc.IH obtain k where k: "k < m" "nn_scan d m = (d k, int k)"
      "\<forall>k'<m. d k \<le> d k'" "\<forall>k'<k. d k < d k'" by auto
    show ?thesis
    proof (cases "d m < d k")
      case True
      have "\<forall>k'<Suc m. d m \<le> d k'"
        using True k(3) by (auto simp: less_Suc_eq intro: less_imp_le order.strict_trans2)
      moreover have "\<forall>k'<m. d m < d k'"
        using True k(3) by (auto intro: order.strict_trans2)
      ultimately show ?thesis using True k(2) False
        by (intro exI [of _ m]) simp
    next
      case no: False
      have "\<forall>k'<Suc m. d k \<le> d k'"
        using no k(3) by (auto simp: less_Suc_eq)
      then show ?thesis using no k False
        by (intro exI [of _ k]) simp
    qed
  qed
qed

subsection \<open>The loops over the points and the batches\<close>

lemma length_filled [simp]: "length (filled f xs p) = length xs"
  by (simp add: filled_def)

lemma filled_0 [simp]: "filled f xs 0 = xs"
  by (simp add: filled_def map_nth)

lemma filled_all: "length xs \<le> p \<Longrightarrow> filled f xs p = map f [0..<length xs]"
  by (simp add: filled_def)

lemma filled_update: "p < length xs \<Longrightarrow> (filled f xs p)[p := f p] = filled f xs (Suc p)"
  by (rule nth_equalityI) (auto simp: filled_def nth_list_update less_Suc_eq)

lemma point_in_range: "i < b \<Longrightarrow> j < n \<Longrightarrow> i * n + j < b * (n::nat)"
proof -
  assume "i < b" "j < n"
  then have "i * n + j < Suc i * n" by simp
  also from \<open>i < b\<close> have "Suc i * n \<le> b * n" by (intro mult_le_mono1) simp
  finally show ?thesis .
qed

lemma row_in_range: "i < b \<Longrightarrow> i * m + m \<le> b * (m::nat)"
proof -
  assume "i < b"
  then have "Suc i * m \<le> b * m" by (intro mult_le_mono1) simp
  then show ?thesis by simp
qed

lemma nnsearch_point_eq:
  assumes "(i * n + j) * 6 + 5 < length xyz1" and "(i * m + m) * 6 \<le> length xyz2"
    and "i * n + j < length d" and "i * n + j < length ix"
  shows "nnsearch_point n m xyz1 xyz2 i j (d, ix) =
         Some (d[i * n + j := fst (nn_result m xyz1 xyz2 i (i * n + j))],
               ix[i * n + j := snd (nn_result m xyz1 xyz2 i (i * n + j))])"
  unfolding nnsearch_point_def rd_int wr_int nn_result_def using assms
  by (simp add: nnsearch_inner_loop split: prod.splits)

lemma nnsearch_row:
  assumes len: "length xyz1 = b * n * 6" "length xyz2 = b * m * 6" "length d0 = b * n" "length ix0 = b * n"
    and i: "i < b" and n': "n' \<le> n"
  shows "for_loop 0 n' (nnsearch_point n m xyz1 xyz2 i)
           (filled (\<lambda>q. fst (nn_result m xyz1 xyz2 (q div n) q)) d0 (i * n),
            filled (\<lambda>q. snd (nn_result m xyz1 xyz2 (q div n) q)) ix0 (i * n)) =
         Some (filled (\<lambda>q. fst (nn_result m xyz1 xyz2 (q div n) q)) d0 (i * n + n'),
               filled (\<lambda>q. snd (nn_result m xyz1 xyz2 (q div n) q)) ix0 (i * n + n'))"
  using n'
proof (induction n')
  case 0
  show ?case by simp
next
  case (Suc j)
  then have j: "j < n" by simp
  from point_in_range [OF i j] have p: "i * n + j < b * n" .
  from row_in_range [OF i] have r: "i * m + m \<le> b * m" .
  have dv: "(i * n + j) div n = i" using j by simp
  have b1: "(i * n + j) * 6 + 5 < length xyz1" using p len by simp
  have b2: "(i * m + m) * 6 \<le> length xyz2" using r len by simp
  have step: "nnsearch_point n m xyz1 xyz2 i j
           (filled (\<lambda>q. fst (nn_result m xyz1 xyz2 (q div n) q)) d0 (i * n + j),
            filled (\<lambda>q. snd (nn_result m xyz1 xyz2 (q div n) q)) ix0 (i * n + j)) =
         Some (filled (\<lambda>q. fst (nn_result m xyz1 xyz2 (q div n) q)) d0 (Suc (i * n + j)),
               filled (\<lambda>q. snd (nn_result m xyz1 xyz2 (q div n) q)) ix0 (Suc (i * n + j)))"
    using p len
    by (subst nnsearch_point_eq [OF b1 b2])
       (simp_all add: filled_update [where f = "\<lambda>q. fst (nn_result m xyz1 xyz2 (q div n) q)", symmetric]
          filled_update [where f = "\<lambda>q. snd (nn_result m xyz1 xyz2 (q div n) q)", symmetric] dv)
  from Suc have "for_loop 0 j (nnsearch_point n m xyz1 xyz2 i)
           (filled (\<lambda>q. fst (nn_result m xyz1 xyz2 (q div n) q)) d0 (i * n),
            filled (\<lambda>q. snd (nn_result m xyz1 xyz2 (q div n) q)) ix0 (i * n)) =
         Some (filled (\<lambda>q. fst (nn_result m xyz1 xyz2 (q div n) q)) d0 (i * n + j),
               filled (\<lambda>q. snd (nn_result m xyz1 xyz2 (q div n) q)) ix0 (i * n + j))"
    by simp
  then show ?case by (simp add: for_loop_Suc step)
qed

lemma nnsearch_eq:
  assumes len: "length xyz1 = b * n * 6" "length xyz2 = b * m * 6" "length d0 = b * n" "length ix0 = b * n"
  shows "nnsearch b n m xyz1 xyz2 d0 ix0 =
         Some (map (\<lambda>q. fst (nn_result m xyz1 xyz2 (q div n) q)) [0..<b * n],
               map (\<lambda>q. snd (nn_result m xyz1 xyz2 (q div n) q)) [0..<b * n])"
proof -
  have "b' \<le> b \<Longrightarrow> for_loop 0 b' (\<lambda>i. for_loop 0 n (nnsearch_point n m xyz1 xyz2 i)) (d0, ix0) =
         Some (filled (\<lambda>q. fst (nn_result m xyz1 xyz2 (q div n) q)) d0 (b' * n),
               filled (\<lambda>q. snd (nn_result m xyz1 xyz2 (q div n) q)) ix0 (b' * n))" for b'
  proof (induction b')
    case 0
    show ?case by simp
  next
    case (Suc i)
    then have i: "i < b" by simp
    from Suc show ?case
      by (simp add: for_loop_Suc nnsearch_row [OF len i order_refl] add.commute)
  qed
  from this [of b] show ?thesis
    by (simp add: nnsearch_def filled_all len)
qed

lemma Compute_fwd_eq:
  assumes "wf_tensor xyz1_t" "wf_tensor xyz2_t" "shape xyz1_t = [b, n, 6]" "shape xyz2_t = [b, m, 6]"
  shows "NnDistance2Op_Compute junkf junki xyz1_t xyz2_t =
      \<lparr>status = OK, allocated = [[b, n], [b, n], [b, m], [b, m]],
       outputs = Some
        \<lparr>out_dist1 = \<lparr>shape = [b, n],
            flat = map (\<lambda>q. fst (nn_result m (flat xyz1_t) (flat xyz2_t) (q div n) q)) [0..<b * n]\<rparr>,
         out_idx1 = \<lparr>shape = [b, n],
            flat = map (\<lambda>q. snd (nn_result m (flat xyz1_t) (flat xyz2_t) (q div n) q)) [0..<b * n]\<rparr>,
         out_dist2 = \<lparr>shape = [b, m],
            flat = map (\<lambda>q. fst (nn_result n (flat xyz2_t) (flat xyz1_t) (q div m) q)) [0..<b * m]\<rparr>,
         out_idx2 = \<lparr>shape = [b, m],
            flat = map (\<lambda>q. snd (nn_result n (flat xyz2_t) (flat xyz1_t) (q div m) q)) [0..<b * m]\<rparr>\<rparr>\<rparr>"
proof -
  have l1: "length (flat xyz1_t) = b * n * 6" and l2: "length (flat xyz2_t) = b * m * 6"
    using assms by (simp_all add: wf_tensor_def num_elements_def)
  have s1: "nnsearch b n m (flat xyz1_t) (flat xyz2_t) (map f [0..<b * n]) (map g [0..<b * n]) =
      Some (map (\<lambda>q. fst (nn_result m (flat xyz1_t) (flat xyz2_t) (q div n) q)) [0..<b * n],
            map (\<lambda>q. snd (nn_result m (flat xyz1_t) (flat xyz2_t) (q div n) q)) [0..<b * n])" for f g
    by (rule nnsearch_eq [OF l1 l2]) simp_all
  have s2: "nnsearch b m n (flat xyz2_t) (flat xyz1_t) (map f [0..<b * m]) (map g [0..<b * m]) =
      Some (map (\<lambda>q. fst (nn_result n (flat xyz2_t) (flat xyz1_t) (q div m) q)) [0..<b * m],
            map (\<lambda>q. snd (nn_result n (flat xyz2_t) (flat xyz1_t) (q div m) q)) [0..<b * m])" for f g
    by (rule nnsearch_eq [OF l2 l1]) simp_all
  show ?thesis
    using assms(3,4)
    by (simp add: NnDistance2Op_Compute_def dims_def dim_size_def allocate_output_def
        num_elements_def Let_def s1 s2)
qed

lemma nn_result_spec:
  assumes "0 < m"
  shows "\<exists>k<m. nn_result m xyz1 xyz2 i p = (squaredDist6D xyz1 p xyz2 (i * m + k), int k) \<and>
      (\<forall>k'<m. squaredDist6D xyz1 p xyz2 (i * m + k) \<le> squaredDist6D xyz1 p xyz2 (i * m + k')) \<and>
      (\<forall>k'<k. squaredDist6D xyz1 p xyz2 (i * m + k) < squaredDist6D xyz1 p xyz2 (i * m + k'))"
  unfolding nn_result_def dist6_squaredDist6D
  by (rule nn_scan_spec [OF assms])

lemma nn_result_empty: "nn_result 0 xyz1 xyz2 i p = (0, 0)"
  by (simp add: nn_result_def)

lemma fwd_nth:
  assumes "i < B" "j < N"
  shows "map f [0..<B * N] ! (i * N + j) = f (i * N + j)" and "(i * N + j) div N = i"
  using point_in_range [OF assms] assms(2) by simp_all

lemma Compute_fwd_lists:
  assumes "fwd_accepted xyz1_tensor xyz2_tensor B N M"
  shows "NnDistance2Op_Compute junkf junki xyz1_tensor xyz2_tensor =
       \<lparr>status = OK, allocated = [[B, N], [B, N], [B, M], [B, M]],
        outputs = Some
         \<lparr>out_dist1 = \<lparr>shape = [B, N],
            flat = map (\<lambda>q. fst (nn_result M (flat xyz1_tensor) (flat xyz2_tensor) (q div N) q)) [0..<B * N]\<rparr>,
          out_idx1 = \<lparr>shape = [B, N],
            flat = map (\<lambda>q. snd (nn_result M (flat xyz1_tensor) (flat xyz2_tensor) (q div N) q)) [0..<B * N]\<rparr>,
          out_dist2 = \<lparr>shape = [B, M],
            flat = map (\<lambda>q. fst (nn_result N (flat xyz2_tensor) (flat xyz1_tensor) (q div M) q)) [0..<B * M]\<rparr>,
          out_idx2 = \<lparr>shape = [B, M],
            flat = map (\<lambda>q. snd (nn_result N (flat xyz2_tensor) (flat xyz1_tensor) (q div M) q)) [0..<B * M]\<rparr>\<rparr>\<rparr>"
proof -
  from assms have a: "wf_tensor xyz1_tensor" "wf_tensor xyz2_tensor"
    "shape xyz1_tensor = [B, N, 6]" "shape xyz2_tensor = [B, M, 6]"
    by (simp_all add: fwd_accepted_def)
  show ?thesis by (rule Compute_fwd_eq [OF a])
qed

lemma fwd_accepted_swap: "fwd_accepted xyz1_tensor xyz2_tensor B N M \<Longrightarrow> fwd_accepted xyz2_tensor xyz1_tensor B M N"
  by (simp add: fwd_accepted_def)

section \<open>The backward pass\<close>

subsection \<open>One iteration of the first loop\<close>

lemma rd_off:
  "rd buf (int T * 6 + c) = (if 0 \<le> c \<and> T * 6 + nat c < length buf then Some (buf ! (T * 6 + nat c)) else
     if 0 \<le> c then None else rd buf (int T * 6 + c))"
  by (auto simp: rd_def nat_add_distrib nat_mult_distrib)

lemma wr_off:
  "wr buf (int T * 6 + c) v = (if 0 \<le> c \<and> T * 6 + nat c < length buf then Some (buf[T * 6 + nat c := v]) else
     if 0 \<le> c then None else wr buf (int T * 6 + c) v)"
  by (auto simp: wr_def nat_add_distrib nat_mult_distrib)

lemma upd6_nth:
  assumes "P = p * 6" "P + 5 < length xs"
  shows "xs[P + 0 := f 0, P + 1 := f 1, P + 2 := f 2, P + 3 := f 3, P + 4 := f 4, P + 5 := f 5] ! q =
         (if q div 6 = p then f (q mod 6) else xs ! q)"
proof (cases "q div 6 = p")
  case True
  then have q: "q = P + q mod 6" using assms(1) by (metis add.commute mult.commute mult_div_mod_eq)
  have "q mod 6 < 6" by simp
  then consider "q mod 6 = 0" | "q mod 6 = 1" | "q mod 6 = 2" | "q mod 6 = 3" | "q mod 6 = 4" | "q mod 6 = 5"
    by linarith
  then show ?thesis
    using True assms(2) by cases (subst q, simp)+
next
  case False
  then have "q \<noteq> P + 0" "q \<noteq> P + 1" "q \<noteq> P + 2" "q \<noteq> P + 3" "q \<noteq> P + 4" "q \<noteq> P + 5"
    using assms(1) by auto
  with False show ?thesis by simp
qed

lemma grad_point1_explicit:
  assumes "length xyz1 = L1 * 6" "length xyz2 = L2 * 6" "i * n + j < L1" "i * n + j < length idx1"
    "i * n + j < length gd" "length g1 = L1 * 6" "length g2 = L2 * 6"
    "int (i * m) + idx1 ! (i * n + j) = int T" "T < L2" "P = (i * n + j) * 6" "Q = T * 6"
    "G = gd ! (i * n + j) * 2"
  shows "grad_point1 n m xyz1 xyz2 gd idx1 i j (g1, g2) =
    Some (g1[P + 0 := g1 ! (P + 0) + G * (xyz1 ! (P + 0) - xyz2 ! (Q + 0)),
             P + 1 := g1 ! (P + 1) + G * (xyz1 ! (P + 1) - xyz2 ! (Q + 1)),
             P + 2 := g1 ! (P + 2) + G * (xyz1 ! (P + 2) - xyz2 ! (Q + 2)),
             P + 3 := g1 ! (P + 3) + G * (xyz1 ! (P + 3) - xyz2 ! (Q + 3)),
             P + 4 := g1 ! (P + 4) + G * (xyz1 ! (P + 4) - xyz2 ! (Q + 4)),
             P + 5 := g1 ! (P + 5) + G * (xyz1 ! (P + 5) - xyz2 ! (Q + 5))],
          g2[Q + 0 := g2 ! (Q + 0) - G * (xyz1 ! (P + 0) - xyz2 ! (Q + 0)),
             Q + 1 := g2 ! (Q + 1) - G * (xyz1 ! (P + 1) - xyz2 ! (Q + 1)),
             Q + 2 := g2 ! (Q + 2) - G * (xyz1 ! (P + 2) - xyz2 ! (Q + 2)),
             Q + 3 := g2 ! (Q + 3) - G * (xyz1 ! (P + 3) - xyz2 ! (Q + 3)),
             Q + 4 := g2 ! (Q + 4) - G * (xyz1 ! (P + 4) - xyz2 ! (Q + 4)),
             Q + 5 := g2 ! (Q + 5) - G * (xyz1 ! (P + 5) - xyz2 ! (Q + 5))])"
proof -
  have c: "(0::nat) < 6" "(1::nat) < 6" "(2::nat) < 6" "(3::nat) < 6" "(4::nat) < 6" "(5::nat) < 6"
    by simp_all
  have z: "(0::int) \<le> 0 \<and> (0::int) < 6" "(0::int) \<le> 1 \<and> (1::int) < 6" "(0::int) \<le> 2 \<and> (2::int) < 6"
      "(0::int) \<le> 3 \<and> (3::int) < 6" "(0::int) \<le> 4 \<and> (4::int) < 6" "(0::int) \<le> 5 \<and> (5::int) < 6"
    by simp_all
  have rdA: "rd xyz1 (int ((i * n + j) * 6 + c)) = Some (xyz1 ! (P + c))" if "c < 6" for c
    unfolding rd_int using that assms by simp
  have rdI: "rd idx1 (int (i * n + j)) = Some (idx1 ! (i * n + j))"
    unfolding rd_int using assms by simp
  have rdG: "rd gd (int (i * n + j)) = Some (gd ! (i * n + j))"
    unfolding rd_int using assms by simp
  have e: "(int (i * m) + idx1 ! (i * n + j)) * 6 + c = int (Q + nat c)" if "0 \<le> c \<and> c < 6" for c
    unfolding assms(8) using that assms(11) by simp
  have bQ: "Q + nat c < L2 * 6" if "0 \<le> c \<and> c < 6" for c
    using that assms(9,11) by arith
  have rdB: "rd xyz2 ((int (i * m) + idx1 ! (i * n + j)) * 6 + c) = Some (xyz2 ! (Q + nat c))"
    if "0 \<le> c \<and> c < 6" for c
    unfolding e [OF that] rd_int using bQ [OF that] assms(2) by simp
  have addA: "add_at xs (int ((i * n + j) * 6 + c)) v = Some (xs[P + c := xs ! (P + c) + v])"
    if "c < 6" "length xs = L1 * 6" for c xs v
    unfolding add_at_def rd_int wr_int using that assms by simp
  have subB: "sub_at xs ((int (i * m) + idx1 ! (i * n + j)) * 6 + c) v =
      Some (xs[Q + nat c := xs ! (Q + nat c) - v])"
    if "0 \<le> c \<and> c < 6" "length xs = L2 * 6" for c xs v
    unfolding e [OF that(1)] sub_at_def rd_int wr_int using bQ [OF that(1)] that(2) by simp
  show ?thesis
    unfolding grad_point1_def
    apply (simp only: rdA [OF c(1)] rdA [OF c(2)] rdA [OF c(3)] rdA [OF c(4)] rdA [OF c(5)] rdA [OF c(6)]
        rdI rdG rdB [OF z(1)] rdB [OF z(2)] rdB [OF z(3)] rdB [OF z(4)] rdB [OF z(5)] rdB [OF z(6)]
        addA [OF c(1)] addA [OF c(2)] addA [OF c(3)] addA [OF c(4)] addA [OF c(5)] addA [OF c(6)]
        subB [OF z(1)] subB [OF z(2)] subB [OF z(3)] subB [OF z(4)] subB [OF z(5)] subB [OF z(6)]
        Option.bind.simps option.map prod.case length_list_update assms(6,7) assms(12) [symmetric])
    apply simp
    done
qed

lemma grad_point1_fault:
  assumes "length xyz1 = L1 * 6" "length xyz2 = L2 * 6" "i * n + j < L1" "i * n + j < length idx1"
    "\<not> (0 \<le> int (i * m) + idx1 ! (i * n + j) \<and> int (i * m) + idx1 ! (i * n + j) < int L2)"
  shows "grad_point1 n m xyz1 xyz2 gd idx1 i j (g1, g2) = None"
proof -
  have c: "(0::nat) < 6" "(1::nat) < 6" "(2::nat) < 6" "(3::nat) < 6" "(4::nat) < 6" "(5::nat) < 6"
    by simp_all
  have rdA: "rd xyz1 (int ((i * n + j) * 6 + c)) = Some (xyz1 ! ((i * n + j) * 6 + c))" if "c < 6" for c
    unfolding rd_int using that assms by simp
  have rdI: "rd idx1 (int (i * n + j)) = Some (idx1 ! (i * n + j))"
    unfolding rd_int using assms by simp
  have rdB: "rd xyz2 ((int (i * m) + idx1 ! (i * n + j)) * 6 + 0) = None"
    using assms(2,5) by (auto simp: rd_def)
  show ?thesis
    unfolding grad_point1_def
    by (simp only: rdA [OF c(1)] rdA [OF c(2)] rdA [OF c(3)] rdA [OF c(4)] rdA [OF c(5)] rdA [OF c(6)]
        rdI rdB Option.bind.simps prod.case)
qed

lemma grad_point1_step:
  assumes "length xyz1 = L1 * 6" "length xyz2 = L2 * 6" "i * n + j < L1" "i * n + j < length idx1"
    "i * n + j < length gd" "length g1 = L1 * 6" "length g2 = L2 * 6"
  shows "if 0 \<le> int (i * m) + idx1 ! (i * n + j) \<and> int (i * m) + idx1 ! (i * n + j) < int L2
         then \<exists>s'. grad_point1 n m xyz1 xyz2 gd idx1 i j (g1, g2) = Some s' \<and>
                (length (fst s') = L1 * 6 \<and> length (snd s') = L2 * 6) \<and>
                (\<forall>x. gval s' x = gval (g1, g2) x + delta1 n m xyz1 xyz2 gd idx1 i j x)
         else grad_point1 n m xyz1 xyz2 gd idx1 i j (g1, g2) = None"
proof (cases "0 \<le> int (i * m) + idx1 ! (i * n + j) \<and> int (i * m) + idx1 ! (i * n + j) < int L2")
  case False
  with grad_point1_fault [OF assms(1-4) False] show ?thesis by simp
next
  case True
  define T where "T = nat (int (i * m) + idx1 ! (i * n + j))"
  define P where "P = (i * n + j) * 6"
  define Q where "Q = T * 6"
  define G where "G = gd ! (i * n + j) * 2"
  have T: "int (i * m) + idx1 ! (i * n + j) = int T" "T < L2"
    using True unfolding T_def by linarith+
  define f1 where "f1 = (\<lambda>c. g1 ! (P + c) + G * (xyz1 ! (P + c) - xyz2 ! (Q + c)))"
  define f2 where "f2 = (\<lambda>c. g2 ! (Q + c) - G * (xyz1 ! (P + c) - xyz2 ! (Q + c)))"
  have ex: "grad_point1 n m xyz1 xyz2 gd idx1 i j (g1, g2) =
      Some (g1[P + 0 := f1 0, P + 1 := f1 1, P + 2 := f1 2, P + 3 := f1 3, P + 4 := f1 4, P + 5 := f1 5],
            g2[Q + 0 := f2 0, Q + 1 := f2 1, Q + 2 := f2 2, Q + 3 := f2 3, Q + 4 := f2 4, Q + 5 := f2 5])"
    unfolding f1_def f2_def
    by (rule grad_point1_explicit [OF assms T P_def Q_def G_def])
  have bP: "P + 5 < length g1" using assms(3,6) by (simp add: P_def)
  have bQ: "Q + 5 < length g2" using T(2) assms(7) by (simp add: Q_def)
  have v1: "g1[P + 0 := f1 0, P + 1 := f1 1, P + 2 := f1 2, P + 3 := f1 3, P + 4 := f1 4, P + 5 := f1 5] ! q =
      g1 ! q + delta1 n m xyz1 xyz2 gd idx1 i j (True, q)" for q
  proof (cases "q div 6 = i * n + j")
    case eq: True
    have "P + q mod 6 = q" unfolding P_def eq [symmetric] by (rule div_mult_mod_eq)
    then show ?thesis
      unfolding upd6_nth [OF P_def bP]
      using eq T(1) by (simp add: delta1_def contrib_def f1_def G_def P_def Q_def algebra_simps)
  next
    case False
    then show ?thesis
      unfolding upd6_nth [OF P_def bP] by (simp add: delta1_def)
  qed
  have v2: "g2[Q + 0 := f2 0, Q + 1 := f2 1, Q + 2 := f2 2, Q + 3 := f2 3, Q + 4 := f2 4, Q + 5 := f2 5] ! q =
      g2 ! q + delta1 n m xyz1 xyz2 gd idx1 i j (False, q)" for q
  proof (cases "q div 6 = T")
    case eq: True
    have "Q + q mod 6 = q" unfolding Q_def eq [symmetric] by (rule div_mult_mod_eq)
    then show ?thesis
      unfolding upd6_nth [OF Q_def bQ]
      using eq T(1) by (simp add: delta1_def contrib_def f2_def G_def P_def Q_def algebra_simps)
  next
    case False
    then have "int (q div 6) \<noteq> int (i * m) + idx1 ! (i * n + j)"
      unfolding T(1) by simp
    with False show ?thesis
      unfolding upd6_nth [OF Q_def bQ] by (simp add: delta1_def)
  qed
  define s1 where "s1 = (g1[P + 0 := f1 0, P + 1 := f1 1, P + 2 := f1 2, P + 3 := f1 3, P + 4 := f1 4, P + 5 := f1 5],
            g2[Q + 0 := f2 0, Q + 1 := f2 1, Q + 2 := f2 2, Q + 3 := f2 3, Q + 4 := f2 4, Q + 5 := f2 5])"
  have r: "grad_point1 n m xyz1 xyz2 gd idx1 i j (g1, g2) = Some s1"
    unfolding s1_def by (rule ex)
  have l: "length (fst s1) = L1 * 6 \<and> length (snd s1) = L2 * 6"
    unfolding s1_def using assms(6,7) by simp
  have v: "\<forall>x. gval s1 x = gval (g1, g2) x + delta1 n m xyz1 xyz2 gd idx1 i j x"
  proof
    fix x :: "bool \<times> nat"
    obtain w q where x: "x = (w, q)" by (cases x)
    show "gval s1 x = gval (g1, g2) x + delta1 n m xyz1 xyz2 gd idx1 i j x"
      unfolding x s1_def gval.simps using v1 [of q] v2 [of q] by (cases w) simp_all
  qed
  have "\<exists>s'. grad_point1 n m xyz1 xyz2 gd idx1 i j (g1, g2) = Some s' \<and>
      (length (fst s') = L1 * 6 \<and> length (snd s') = L2 * 6) \<and>
      (\<forall>x. gval s' x = gval (g1, g2) x + delta1 n m xyz1 xyz2 gd idx1 i j x)"
    by (intro exI [of _ s1] conjI r v conjunct1 [OF l] conjunct2 [OF l])
  then show ?thesis using True by (simp only: if_P if_True)
qed

subsection \<open>Loops that accumulate\<close>

text \<open>
  When each iteration either fails or adds to every cell a value that does not depend on the
  state, the loop fails iff an iteration does, and otherwise adds the sum of these values.
\<close>

lemma for_loop_acc:
  fixes val :: "'s \<Rightarrow> 'x \<Rightarrow> 'v::comm_monoid_add"
  assumes step: "\<And>k s. k < n \<Longrightarrow> I s \<Longrightarrow>
      (if ok k then \<exists>s'. body k s = Some s' \<and> I s' \<and> (\<forall>x. val s' x = val s x + d k x)
       else body k s = None)"
    and I: "I s"
  shows "if (\<forall>k<n. ok k)
         then \<exists>s'. for_loop 0 n body s = Some s' \<and> I s' \<and> (\<forall>x. val s' x = val s x + (\<Sum>k<n. d k x))
         else for_loop 0 n body s = None"
proof -
  have "if (\<forall>k<n'. ok k)
         then \<exists>s'. for_loop 0 n' body s = Some s' \<and> I s' \<and> (\<forall>x. val s' x = val s x + (\<Sum>k<n'. d k x))
         else for_loop 0 n' body s = None" if "n' \<le> n" for n'
    using that
  proof (induction n')
    case 0
    show ?case using I by simp
  next
    case (Suc n')
    then have n': "n' < n" by simp
    show ?case
    proof (cases "\<forall>k<n'. ok k")
      case False
      with Suc have "for_loop 0 n' body s = None" by simp
      moreover from False have "\<not> (\<forall>k<Suc n'. ok k)" by (meson less_SucI)
      ultimately show ?thesis by (simp add: for_loop_Suc)
    next
      case True
      with Suc obtain s' where s': "for_loop 0 n' body s = Some s'" "I s'"
        "\<forall>x. val s' x = val s x + (\<Sum>k<n'. d k x)" by auto
      show ?thesis
      proof (cases "ok n'")
        case no: False
        with step [OF n' s'(2)] have "body n' s' = None" by simp
        moreover from no have "\<not> (\<forall>k<Suc n'. ok k)" by auto
        ultimately show ?thesis by (simp add: for_loop_Suc s'(1))
      next
        case yes: True
        with step [OF n' s'(2)] obtain s'' where s'': "body n' s' = Some s''" "I s''"
          "\<forall>x. val s'' x = val s' x + d n' x" by auto
        from True yes have "\<forall>k<Suc n'. ok k" by (auto simp: less_Suc_eq)
        moreover have "\<forall>x. val s'' x = val s x + (\<Sum>k<Suc n'. d k x)"
          using s'(3) s''(3) by (simp add: add.assoc)
        ultimately show ?thesis using s''(1,2) by (simp add: for_loop_Suc s'(1))
      qed
    qed
  qed
  from this [of n] show ?thesis by simp
qed

subsection \<open>The second loop, and one batch\<close>

lemma grad_point2_swap:
  "grad_point2 n m xyz1 xyz2 gd2 idx2 i j (g1, g2) =
   map_option prod.swap (grad_point1 m n xyz2 xyz1 gd2 idx2 i j (g2, g1))"
  unfolding grad_point2_def grad_point1_def
  by (simp add: map_option_bind comp_def)

lemma gval_swap: "gval (prod.swap s) x = gval s (\<not> fst x, snd x)"
  by (cases s; cases x) simp

lemma grad_point2_step:
  assumes "length xyz1 = L1 * 6" "length xyz2 = L2 * 6" "i * m + j < L2" "i * m + j < length idx2"
    "i * m + j < length gd" "length g1 = L1 * 6" "length g2 = L2 * 6"
  shows "if 0 \<le> int (i * n) + idx2 ! (i * m + j) \<and> int (i * n) + idx2 ! (i * m + j) < int L1
         then \<exists>s'. grad_point2 n m xyz1 xyz2 gd idx2 i j (g1, g2) = Some s' \<and>
                (length (fst s') = L1 * 6 \<and> length (snd s') = L2 * 6) \<and>
                (\<forall>x. gval s' x = gval (g1, g2) x + delta1 m n xyz2 xyz1 gd idx2 i j (\<not> fst x, snd x))
         else grad_point2 n m xyz1 xyz2 gd idx2 i j (g1, g2) = None"
proof (cases "0 \<le> int (i * n) + idx2 ! (i * m + j) \<and> int (i * n) + idx2 ! (i * m + j) < int L1")
  case False
  have "grad_point1 m n xyz2 xyz1 gd idx2 i j (g2, g1) = None"
    using grad_point1_step [where m = n, OF assms(2,1,3,4,5,7,6)] False by simp
  then show ?thesis
    using False by (simp add: grad_point2_swap)
next
  case True
  have "\<exists>s'. grad_point1 m n xyz2 xyz1 gd idx2 i j (g2, g1) = Some s' \<and>
      (length (fst s') = L2 * 6 \<and> length (snd s') = L1 * 6) \<and>
      (\<forall>x. gval s' x = gval (g2, g1) x + delta1 m n xyz2 xyz1 gd idx2 i j x)"
    using grad_point1_step [where m = n, OF assms(2,1,3,4,5,7,6)] True by (simp only: if_P if_True)
  then obtain s' where s': "grad_point1 m n xyz2 xyz1 gd idx2 i j (g2, g1) = Some s'"
    "length (fst s') = L2 * 6" "length (snd s') = L1 * 6"
    "\<forall>x. gval s' x = gval (g2, g1) x + delta1 m n xyz2 xyz1 gd idx2 i j x" by (elim exE conjE)
  have v: "\<forall>x. gval (prod.swap s') x = gval (g1, g2) x + delta1 m n xyz2 xyz1 gd idx2 i j (\<not> fst x, snd x)"
    unfolding gval_swap using s'(4) by simp
  have r: "grad_point2 n m xyz1 xyz2 gd idx2 i j (g1, g2) = Some (prod.swap s')"
    unfolding grad_point2_swap s'(1) by simp
  have l: "length (fst (prod.swap s')) = L1 * 6 \<and> length (snd (prod.swap s')) = L2 * 6"
    using s'(2,3) by simp
  have "\<exists>t. grad_point2 n m xyz1 xyz2 gd idx2 i j (g1, g2) = Some t \<and>
      (length (fst t) = L1 * 6 \<and> length (snd t) = L2 * 6) \<and>
      (\<forall>x. gval t x = gval (g1, g2) x + delta1 m n xyz2 xyz1 gd idx2 i j (\<not> fst x, snd x))"
    by (intro exI [of _ "prod.swap s'"] conjI r v conjunct1 [OF l] conjunct2 [OF l])
  then show ?thesis using True by (simp only: if_P if_True)
qed

lemma grad_batch_step:
  assumes len: "length xyz1 = b * n * 6" "length xyz2 = b * m * 6" "length gd1 = b * n" "length idx1 = b * n"
    "length gd2 = b * m" "length idx2 = b * m"
    and i: "i < b" and I: "length (fst s) = b * n * 6 \<and> length (snd s) = b * m * 6"
  shows "if (\<forall>j<n. target_ok b n m idx1 i j) \<and> (\<forall>j<m. target_ok b m n idx2 i j)
         then \<exists>s'. grad_batch n m xyz1 xyz2 gd1 idx1 gd2 idx2 i s = Some s' \<and>
                (length (fst s') = b * n * 6 \<and> length (snd s') = b * m * 6) \<and>
                (\<forall>x. gval s' x = gval s x +
                   ((\<Sum>j<n. delta1 n m xyz1 xyz2 gd1 idx1 i j x) +
                    (\<Sum>j<m. delta1 m n xyz2 xyz1 gd2 idx2 i j (\<not> fst x, snd x))))
         else grad_batch n m xyz1 xyz2 gd1 idx1 gd2 idx2 i s = None"
proof -
  have one: "if target_ok b n m idx1 i j
      then \<exists>s'. grad_point1 n m xyz1 xyz2 gd1 idx1 i j t = Some s' \<and>
             (length (fst s') = b * n * 6 \<and> length (snd s') = b * m * 6) \<and>
             (\<forall>x. gval s' x = gval t x + delta1 n m xyz1 xyz2 gd1 idx1 i j x)
      else grad_point1 n m xyz1 xyz2 gd1 idx1 i j t = None"
    if "j < n" "length (fst t) = b * n * 6 \<and> length (snd t) = b * m * 6" for j t
  proof -
    from point_in_range [OF i that(1)] have p: "i * n + j < b * n" .
    obtain g1 g2 where t: "t = (g1, g2)" by (cases t)
    from that(2) have l: "length g1 = b * n * 6" "length g2 = b * m * 6" by (simp_all add: t)
    have q: "i * n + j < length idx1" "i * n + j < length gd1" using p len(3,4) by simp_all
    show ?thesis unfolding t target_ok_def
      by (rule grad_point1_step [where m = m, OF len(1,2) p q l])
  qed
  have two: "if target_ok b m n idx2 i j
      then \<exists>s'. grad_point2 n m xyz1 xyz2 gd2 idx2 i j t = Some s' \<and>
             (length (fst s') = b * n * 6 \<and> length (snd s') = b * m * 6) \<and>
             (\<forall>x. gval s' x = gval t x + delta1 m n xyz2 xyz1 gd2 idx2 i j (\<not> fst x, snd x))
      else grad_point2 n m xyz1 xyz2 gd2 idx2 i j t = None"
    if "j < m" "length (fst t) = b * n * 6 \<and> length (snd t) = b * m * 6" for j t
  proof -
    from point_in_range [OF i that(1)] have p: "i * m + j < b * m" .
    obtain g1 g2 where t: "t = (g1, g2)" by (cases t)
    from that(2) have l: "length g1 = b * n * 6" "length g2 = b * m * 6" by (simp_all add: t)
    have q: "i * m + j < length idx2" "i * m + j < length gd2" using p len(5,6) by simp_all
    show ?thesis unfolding t target_ok_def
      by (rule grad_point2_step [where n = n, OF len(1,2) p q l])
  qed
  have L1: "if (\<forall>j<n. target_ok b n m idx1 i j)
      then \<exists>s'. for_loop 0 n (grad_point1 n m xyz1 xyz2 gd1 idx1 i) s = Some s' \<and>
             (length (fst s') = b * n * 6 \<and> length (snd s') = b * m * 6) \<and>
             (\<forall>x. gval s' x = gval s x + (\<Sum>j<n. delta1 n m xyz1 xyz2 gd1 idx1 i j x))
      else for_loop 0 n (grad_point1 n m xyz1 xyz2 gd1 idx1 i) s = None"
    by (rule for_loop_acc [where I = "\<lambda>t. length (fst t) = b * n * 6 \<and> length (snd t) = b * m * 6"
          and val = gval and ok = "target_ok b n m idx1 i" and d = "delta1 n m xyz1 xyz2 gd1 idx1 i",
          OF one I])
  have L2: "if (\<forall>j<m. target_ok b m n idx2 i j)
      then \<exists>s'. for_loop 0 m (grad_point2 n m xyz1 xyz2 gd2 idx2 i) t = Some s' \<and>
             (length (fst s') = b * n * 6 \<and> length (snd s') = b * m * 6) \<and>
             (\<forall>x. gval s' x = gval t x + (\<Sum>j<m. delta1 m n xyz2 xyz1 gd2 idx2 i j (\<not> fst x, snd x)))
      else for_loop 0 m (grad_point2 n m xyz1 xyz2 gd2 idx2 i) t = None"
    if "length (fst t) = b * n * 6 \<and> length (snd t) = b * m * 6" for t
    by (rule for_loop_acc [where I = "\<lambda>t. length (fst t) = b * n * 6 \<and> length (snd t) = b * m * 6"
          and val = gval and ok = "target_ok b m n idx2 i"
          and d = "\<lambda>j x. delta1 m n xyz2 xyz1 gd2 idx2 i j (\<not> fst x, snd x)",
          OF two that])
  show ?thesis
  proof (cases "\<forall>j<n. target_ok b n m idx1 i j")
    case False
    with L1 have "for_loop 0 n (grad_point1 n m xyz1 xyz2 gd1 idx1 i) s = None"
      by (simp only: if_not_P if_False)
    with False show ?thesis by (simp add: grad_batch_def)
  next
    case True
    with L1 have "\<exists>s'. for_loop 0 n (grad_point1 n m xyz1 xyz2 gd1 idx1 i) s = Some s' \<and>
             (length (fst s') = b * n * 6 \<and> length (snd s') = b * m * 6) \<and>
             (\<forall>x. gval s' x = gval s x + (\<Sum>j<n. delta1 n m xyz1 xyz2 gd1 idx1 i j x))"
      by (simp only: if_P if_True)
    then obtain s1 where s1: "for_loop 0 n (grad_point1 n m xyz1 xyz2 gd1 idx1 i) s = Some s1"
      "length (fst s1) = b * n * 6 \<and> length (snd s1) = b * m * 6"
      "\<forall>x. gval s1 x = gval s x + (\<Sum>j<n. delta1 n m xyz1 xyz2 gd1 idx1 i j x)"
      by (elim exE conjE) simp
    show ?thesis
    proof (cases "\<forall>j<m. target_ok b m n idx2 i j")
      case False
      with L2 [OF s1(2)] have "for_loop 0 m (grad_point2 n m xyz1 xyz2 gd2 idx2 i) s1 = None"
        by (simp only: if_not_P if_False)
      with False show ?thesis by (simp add: grad_batch_def s1(1))
    next
      case yes: True
      with L2 [OF s1(2)] have "\<exists>s'. for_loop 0 m (grad_point2 n m xyz1 xyz2 gd2 idx2 i) s1 = Some s' \<and>
             (length (fst s') = b * n * 6 \<and> length (snd s') = b * m * 6) \<and>
             (\<forall>x. gval s' x = gval s1 x + (\<Sum>j<m. delta1 m n xyz2 xyz1 gd2 idx2 i j (\<not> fst x, snd x)))"
        by (simp only: if_P if_True)
      then obtain s2 where s2: "for_loop 0 m (grad_point2 n m xyz1 xyz2 gd2 idx2 i) s1 = Some s2"
        "length (fst s2) = b * n * 6 \<and> length (snd s2) = b * m * 6"
        "\<forall>x. gval s2 x = gval s1 x + (\<Sum>j<m. delta1 m n xyz2 xyz1 gd2 idx2 i j (\<not> fst x, snd x))"
        by (elim exE conjE) simp
      have r: "grad_batch n m xyz1 xyz2 gd1 idx1 gd2 idx2 i s = Some s2"
        by (simp add: grad_batch_def s1(1) s2(1))
      have v: "\<forall>x. gval s2 x = gval s x +
                   ((\<Sum>j<n. delta1 n m xyz1 xyz2 gd1 idx1 i j x) +
                    (\<Sum>j<m. delta1 m n xyz2 xyz1 gd2 idx2 i j (\<not> fst x, snd x)))"
        using s1(3) s2(3) by (simp add: add.assoc)
      have c: "(\<forall>j<n. target_ok b n m idx1 i j) \<and> (\<forall>j<m. target_ok b m n idx2 i j)"
        using True yes by (rule conjI)
      show ?thesis
        unfolding if_P [OF c]
        by (intro exI [of _ s2] conjI r v conjunct1 [OF s2(2)] conjunct2 [OF s2(2)])
    qed
  qed
qed

subsection \<open>The whole kernel\<close>

lemma zero_fill:
  "for_loop 0 (length g) (\<lambda>i g. wr g (int i) 0) g = Some (replicate (length g) 0)"
proof -
  have "k \<le> length g \<Longrightarrow> for_loop 0 k (\<lambda>i g. wr g (int i) 0) g = Some (filled (\<lambda>_. 0) g k)" for k
  proof (induction k)
    case 0
    show ?case by simp
  next
    case (Suc k)
    then show ?case
      by (simp add: for_loop_Suc wr_int filled_update [where f = "\<lambda>_. 0"])
  qed
  from this [of "length g"] show ?thesis
    by (simp add: filled_all map_replicate_const)
qed

lemma nngrad_eq:
  assumes len: "length xyz1 = b * n * 6" "length xyz2 = b * m * 6" "length gd1 = b * n" "length idx1 = b * n"
    "length gd2 = b * m" "length idx2 = b * m"
    and l0: "length g10 = b * n * 6" "length g20 = b * m * 6"
  shows "nngrad b n m xyz1 xyz2 gd1 idx1 gd2 idx2 g10 g20 =
     (if all_targets_ok b n m idx1 idx2
      then Some (map (\<lambda>q. grad_total b n m xyz1 xyz2 gd1 idx1 gd2 idx2 (True, q)) [0..<b * n * 6],
                 map (\<lambda>q. grad_total b n m xyz1 xyz2 gd1 idx1 gd2 idx2 (False, q)) [0..<b * m * 6])
      else None)"
proof -
  define s0 :: "'a list \<times> 'a list" where "s0 = (replicate (b * n * 6) 0, replicate (b * m * 6) 0)"
  have z1: "for_loop 0 (b * n * 6) (\<lambda>i g. wr g (int i) 0) g10 = Some (replicate (b * n * 6) 0)"
    using zero_fill [of g10] by (simp add: l0)
  have z2: "for_loop 0 (b * m * 6) (\<lambda>i g. wr g (int i) 0) g20 = Some (replicate (b * m * 6) 0)"
    using zero_fill [of g20] by (simp add: l0)
  have r: "nngrad b n m xyz1 xyz2 gd1 idx1 gd2 idx2 g10 g20 =
      for_loop 0 b (grad_batch n m xyz1 xyz2 gd1 idx1 gd2 idx2) s0"
    by (simp add: nngrad_def z1 z2 s0_def)
  have I0: "length (fst s0) = b * n * 6 \<and> length (snd s0) = b * m * 6"
    by (simp add: s0_def)
  have L: "if (\<forall>i<b. (\<forall>j<n. target_ok b n m idx1 i j) \<and> (\<forall>j<m. target_ok b m n idx2 i j))
      then \<exists>s'. for_loop 0 b (grad_batch n m xyz1 xyz2 gd1 idx1 gd2 idx2) s0 = Some s' \<and>
             (length (fst s') = b * n * 6 \<and> length (snd s') = b * m * 6) \<and>
             (\<forall>x. gval s' x = gval s0 x +
                (\<Sum>i<b. (\<Sum>j<n. delta1 n m xyz1 xyz2 gd1 idx1 i j x) +
                        (\<Sum>j<m. delta1 m n xyz2 xyz1 gd2 idx2 i j (\<not> fst x, snd x))))
      else for_loop 0 b (grad_batch n m xyz1 xyz2 gd1 idx1 gd2 idx2) s0 = None"
    by (rule for_loop_acc [where I = "\<lambda>t. length (fst t) = b * n * 6 \<and> length (snd t) = b * m * 6"
          and val = gval
          and ok = "\<lambda>i. (\<forall>j<n. target_ok b n m idx1 i j) \<and> (\<forall>j<m. target_ok b m n idx2 i j)"
          and d = "\<lambda>i x. (\<Sum>j<n. delta1 n m xyz1 xyz2 gd1 idx1 i j x) +
                        (\<Sum>j<m. delta1 m n xyz2 xyz1 gd2 idx2 i j (\<not> fst x, snd x))",
          OF grad_batch_step [OF len] I0])
  show ?thesis
  proof (cases "all_targets_ok b n m idx1 idx2")
    case False
    then have c: "\<not> (\<forall>i<b. (\<forall>j<n. target_ok b n m idx1 i j) \<and> (\<forall>j<m. target_ok b m n idx2 i j))"
      unfolding all_targets_ok_def .
    from L have "for_loop 0 b (grad_batch n m xyz1 xyz2 gd1 idx1 gd2 idx2) s0 = None"
      unfolding if_not_P [OF c] .
    then show ?thesis unfolding r if_not_P [OF False] .
  next
    case True
    then have c: "\<forall>i<b. (\<forall>j<n. target_ok b n m idx1 i j) \<and> (\<forall>j<m. target_ok b m n idx2 i j)"
      unfolding all_targets_ok_def .
    from L have "\<exists>s'. for_loop 0 b (grad_batch n m xyz1 xyz2 gd1 idx1 gd2 idx2) s0 = Some s' \<and>
             (length (fst s') = b * n * 6 \<and> length (snd s') = b * m * 6) \<and>
             (\<forall>x. gval s' x = gval s0 x + grad_total b n m xyz1 xyz2 gd1 idx1 gd2 idx2 x)"
      unfolding if_P [OF c] grad_total_def .
    then obtain g1 g2 where s': "for_loop 0 b (grad_batch n m xyz1 xyz2 gd1 idx1 gd2 idx2) s0 = Some (g1, g2)"
      "length g1 = b * n * 6" "length g2 = b * m * 6"
      "\<forall>x. gval (g1, g2) x = gval s0 x + grad_total b n m xyz1 xyz2 gd1 idx1 gd2 idx2 x"
      by (elim exE conjE) (metis prod.collapse)
    have "g1 = map (\<lambda>q. grad_total b n m xyz1 xyz2 gd1 idx1 gd2 idx2 (True, q)) [0..<b * n * 6]"
    proof (rule nth_equalityI)
      show "length g1 = length (map (\<lambda>q. grad_total b n m xyz1 xyz2 gd1 idx1 gd2 idx2 (True, q)) [0..<b * n * 6])"
        using s'(2) by simp
      fix q assume "q < length g1"
      then show "g1 ! q = map (\<lambda>q. grad_total b n m xyz1 xyz2 gd1 idx1 gd2 idx2 (True, q)) [0..<b * n * 6] ! q"
        using s'(4) [rule_format, of "(True, q)"] s'(2) by (simp add: s0_def)
    qed
    moreover have "g2 = map (\<lambda>q. grad_total b n m xyz1 xyz2 gd1 idx1 gd2 idx2 (False, q)) [0..<b * m * 6]"
    proof (rule nth_equalityI)
      show "length g2 = length (map (\<lambda>q. grad_total b n m xyz1 xyz2 gd1 idx1 gd2 idx2 (False, q)) [0..<b * m * 6])"
        using s'(3) by simp
      fix q assume "q < length g2"
      then show "g2 ! q = map (\<lambda>q. grad_total b n m xyz1 xyz2 gd1 idx1 gd2 idx2 (False, q)) [0..<b * m * 6] ! q"
        using s'(4) [rule_format, of "(False, q)"] s'(3) by (simp add: s0_def)
    qed
    ultimately show ?thesis
      unfolding r if_P [OF True] s'(1) by simp
  qed
qed

subsection \<open>What one cell receives\<close>

lemma point_index_eq:
  assumes "j < n" "j' < n"
  shows "(i * n + j = i' * n + j') = (i' = i \<and> j' = (j::nat))"
proof
  assume e: "i * n + j = i' * n + j'"
  from assms have "(i * n + j) div n = i" "(i' * n + j') div n = i'"
    "(i * n + j) mod n = j" "(i' * n + j') mod n = j'" by simp_all
  with e show "i' = i \<and> j' = j" by metis
qed simp

lemma sum_point_delta:
  fixes F :: "nat \<Rightarrow> nat \<Rightarrow> 'v::comm_monoid_add"
  assumes "i < b" "j < n"
  shows "(\<Sum>i'<b. \<Sum>j'<n. if i * n + j = i' * n + j' then F i' j' else 0) = F i j"
proof -
  have "(\<Sum>j'<n. if i * n + j = i' * n + j' then F i' j' else 0) = (if i' = i then F i j else 0)" for i'
  proof -
    have "(\<Sum>j'<n. if i * n + j = i' * n + j' then F i' j' else 0) =
          (\<Sum>j'<n. if j' = j then (if i' = i then F i j else 0) else 0)"
      by (rule sum.cong) (auto simp: point_index_eq [OF assms(2)])
    also have "\<dots> = (if i' = i then F i j else 0)"
      using assms(2) by (simp add: sum.delta)
    finally show ?thesis .
  qed
  then show ?thesis using assms(1) by (simp add: sum.delta)
qed

lemma div6: "c < 6 \<Longrightarrow> (p * 6 + c) div 6 = (p::nat)" and mod6: "c < 6 \<Longrightarrow> (p * 6 + c) mod 6 = (c::nat)"
  by simp_all

lemma grad_total_1:
  assumes "i < b" "j < n" "c < 6"
  shows "grad_total b n m xyz1 xyz2 gd1 idx1 gd2 idx2 (True, (i * n + j) * 6 + c) =
     contrib n m xyz1 xyz2 gd1 idx1 i j c -
     (\<Sum>i'<b. \<Sum>j'<m. if int (i' * n) + idx2 ! (i' * m + j') = int (i * n + j)
                        then contrib m n xyz2 xyz1 gd2 idx2 i' j' c else 0)"
proof -
  have a: "(\<Sum>i'<b. \<Sum>j'<n. delta1 n m xyz1 xyz2 gd1 idx1 i' j' (True, (i * n + j) * 6 + c)) =
      contrib n m xyz1 xyz2 gd1 idx1 i j c"
    unfolding delta1_def prod.case if_True div6 [OF assms(3)] mod6 [OF assms(3)]
    by (rule sum_point_delta [OF assms(1,2)])
  have b: "(\<Sum>i'<b. \<Sum>j'<m. delta1 m n xyz2 xyz1 gd2 idx2 i' j' (False, (i * n + j) * 6 + c)) =
      - (\<Sum>i'<b. \<Sum>j'<m. if int (i' * n) + idx2 ! (i' * m + j') = int (i * n + j)
                        then contrib m n xyz2 xyz1 gd2 idx2 i' j' c else 0)"
    unfolding delta1_def prod.case if_False div6 [OF assms(3)] mod6 [OF assms(3)] sum_negf [symmetric]
    by (intro sum.cong refl) auto
  show ?thesis
    unfolding grad_total_def fst_conv snd_conv sum.distrib a
    using b by simp
qed

lemma grad_total_2:
  assumes "i < b" "k < m" "c < 6"
  shows "grad_total b n m xyz1 xyz2 gd1 idx1 gd2 idx2 (False, (i * m + k) * 6 + c) =
     contrib m n xyz2 xyz1 gd2 idx2 i k c -
     (\<Sum>i'<b. \<Sum>j'<n. if int (i' * m) + idx1 ! (i' * n + j') = int (i * m + k)
                        then contrib n m xyz1 xyz2 gd1 idx1 i' j' c else 0)"
proof -
  have a: "(\<Sum>i'<b. \<Sum>j'<m. delta1 m n xyz2 xyz1 gd2 idx2 i' j' (True, (i * m + k) * 6 + c)) =
      contrib m n xyz2 xyz1 gd2 idx2 i k c"
    unfolding delta1_def prod.case if_True div6 [OF assms(3)] mod6 [OF assms(3)]
    by (rule sum_point_delta [OF assms(1,2)])
  have b: "(\<Sum>i'<b. \<Sum>j'<n. delta1 n m xyz1 xyz2 gd1 idx1 i' j' (False, (i * m + k) * 6 + c)) =
      - (\<Sum>i'<b. \<Sum>j'<n. if int (i' * m) + idx1 ! (i' * n + j') = int (i * m + k)
                        then contrib n m xyz1 xyz2 gd1 idx1 i' j' c else 0)"
    unfolding delta1_def prod.case if_False div6 [OF assms(3)] mod6 [OF assms(3)] sum_negf [symmetric]
    by (intro sum.cong refl) auto
  show ?thesis
    unfolding grad_total_def fst_conv snd_conv sum.distrib
    using a b by simp
qed

lemma Compute_grad_eq:
  assumes wf: "wf_tensor xyz1_t" "wf_tensor xyz2_t" "wf_tensor gd1_t" "wf_tensor idx1_t"
      "wf_tensor gd2_t" "wf_tensor idx2_t"
    and sh: "shape xyz1_t = [b, n, 6]" "shape xyz2_t = [b, m, 6]" "shape gd1_t = [b, n]"
      "shape idx1_t = [b, n]" "shape gd2_t = [b, m]" "shape idx2_t = [b, m]"
  shows "NnDistance2GradOp_Compute junkf xyz1_t xyz2_t gd1_t idx1_t gd2_t idx2_t =
     (if all_targets_ok b n m (flat idx1_t) (flat idx2_t)
      then \<lparr>status = OK, allocated = [[b, n, 6], [b, m, 6]],
            outputs = Some
             \<lparr>out_grad_xyz1 = \<lparr>shape = [b, n, 6],
                 flat = map (\<lambda>q. grad_total b n m (flat xyz1_t) (flat xyz2_t) (flat gd1_t) (flat idx1_t)
                                   (flat gd2_t) (flat idx2_t) (True, q)) [0..<b * n * 6]\<rparr>,
              out_grad_xyz2 = \<lparr>shape = [b, m, 6],
                 flat = map (\<lambda>q. grad_total b n m (flat xyz1_t) (flat xyz2_t) (flat gd1_t) (flat idx1_t)
                                   (flat gd2_t) (flat idx2_t) (False, q)) [0..<b * m * 6]\<rparr>\<rparr>\<rparr>
      else \<lparr>status = Fault, allocated = [[b, n, 6], [b, m, 6]], outputs = None\<rparr>)"
proof -
  have len: "length (flat xyz1_t) = b * n * 6" "length (flat xyz2_t) = b * m * 6"
    "length (flat gd1_t) = b * n" "length (flat idx1_t) = b * n"
    "length (flat gd2_t) = b * m" "length (flat idx2_t) = b * m"
    using wf sh by (simp_all add: wf_tensor_def num_elements_def)
  have g: "nngrad b n m (flat xyz1_t) (flat xyz2_t) (flat gd1_t) (flat idx1_t) (flat gd2_t) (flat idx2_t)
         g10 g20 =
     (if all_targets_ok b n m (flat idx1_t) (flat idx2_t)
      then Some (map (\<lambda>q. grad_total b n m (flat xyz1_t) (flat xyz2_t) (flat gd1_t) (flat idx1_t)
                                   (flat gd2_t) (flat idx2_t) (True, q)) [0..<b * n * 6],
                 map (\<lambda>q. grad_total b n m (flat xyz1_t) (flat xyz2_t) (flat gd1_t) (flat idx1_t)
                                   (flat gd2_t) (flat idx2_t) (False, q)) [0..<b * m * 6])
      else None)" if "length g10 = b * n * 6" "length g20 = b * m * 6" for g10 g20
    by (rule nngrad_eq [OF len that])
  show ?thesis
    using sh
    by (simp add: NnDistance2GradOp_Compute_def dims_def dim_size_def allocate_output_def
        num_elements_def Let_def g)
qed

lemma Compute_grad_lists:
  assumes "grad_accepted xyz1_tensor xyz2_tensor grad_dist1_tensor idx1_tensor grad_dist2_tensor idx2_tensor B N M"
  shows "NnDistance2GradOp_Compute junkf xyz1_tensor xyz2_tensor grad_dist1_tensor idx1_tensor
           grad_dist2_tensor idx2_tensor =
     (if all_targets_ok B N M (flat idx1_tensor) (flat idx2_tensor)
      then \<lparr>status = OK, allocated = [[B, N, 6], [B, M, 6]],
            outputs = Some
             \<lparr>out_grad_xyz1 = \<lparr>shape = [B, N, 6],
                 flat = map (\<lambda>q. grad_total B N M (flat xyz1_tensor) (flat xyz2_tensor)
                                   (flat grad_dist1_tensor) (flat idx1_tensor)
                                   (flat grad_dist2_tensor) (flat idx2_tensor) (True, q)) [0..<B * N * 6]\<rparr>,
              out_grad_xyz2 = \<lparr>shape = [B, M, 6],
                 flat = map (\<lambda>q. grad_total B N M (flat xyz1_tensor) (flat xyz2_tensor)
                                   (flat grad_dist1_tensor) (flat idx1_tensor)
                                   (flat grad_dist2_tensor) (flat idx2_tensor) (False, q)) [0..<B * M * 6]\<rparr>\<rparr>\<rparr>
      else \<lparr>status = Fault, allocated = [[B, N, 6], [B, M, 6]], outputs = None\<rparr>)"
proof -
  from assms have wf: "wf_tensor xyz1_tensor" "wf_tensor xyz2_tensor" "wf_tensor grad_dist1_tensor"
      "wf_tensor idx1_tensor" "wf_tensor grad_dist2_tensor" "wf_tensor idx2_tensor"
    and sh: "shape xyz1_tensor = [B, N, 6]" "shape xyz2_tensor = [B, M, 6]" "shape grad_dist1_tensor = [B, N]"
      "shape idx1_tensor = [B, N]" "shape grad_dist2_tensor = [B, M]" "shape idx2_tensor = [B, M]"
    by (simp_all add: grad_accepted_def fwd_accepted_def)
  show ?thesis by (rule Compute_grad_eq [OF wf sh])
qed

lemma coord_in_range:
  assumes "i < B" "j < N" "c < 6"
  shows "(i * N + j) * 6 + c < B * N * (6::nat)"
  using point_in_range [OF assms(1,2)] assms(3) by simp

lemma in_range_target_ok:
  assumes "i < B" "0 \<le> v" "v < int M"
  shows "0 \<le> int (i * M) + v \<and> int (i * M) + v < int (B * M)"
proof -
  from row_in_range [OF assms(1), of M] have "int (i * M + M) \<le> int (B * M)"
    by (simp only: of_nat_le_iff)
  with assms(2,3) show ?thesis by simp
qed

lemma in_range_all_targets_ok:
  assumes r1: "\<forall>i<B. \<forall>j<N. 0 \<le> idx1 ! (i * N + j) \<and> idx1 ! (i * N + j) < int M"
    and r2: "\<forall>i<B. \<forall>j<M. 0 \<le> idx2 ! (i * M + j) \<and> idx2 ! (i * M + j) < int N"
  shows "all_targets_ok B N M idx1 idx2"
  unfolding all_targets_ok_def target_ok_def
proof (intro allI impI conjI)
  fix i j assume "i < B" "j < N"
  with r1 in_range_target_ok [of i B "idx1 ! (i * N + j)" M]
  show "0 \<le> int (i * M) + idx1 ! (i * N + j)" "int (i * M) + idx1 ! (i * N + j) < int (B * M)"
    by blast+
next
  fix i j assume "i < B" "j < M"
  with r2 in_range_target_ok [of i B "idx2 ! (i * M + j)" N]
  show "0 \<le> int (i * N) + idx2 ! (i * M + j)" "int (i * N) + idx2 ! (i * M + j) < int (B * N)"
    by blast+
qed

section \<open>The properties\<close>







text \<open>
  C4. A forward or backward call whose inputs violate a shape precondition (an input that is
  not of rank 3, a trailing dimension other than 6, different batch sizes, or, in the
  backward call, a \<open>grad_dist1\<close> or \<open>idx1\<close> not of shape \<open>[B,N]\<close> or a \<open>grad_dist2\<close> or \<open>idx2\<close>
  not of shape \<open>[B,M]\<close>) ends with an invalid-argument status, with no output buffer
  allocated and no output.
\<close>

theorem shape_violation_fails_before_allocation:
  "(\<not> fwd_shape_ok xyz1_tensor xyz2_tensor \<longrightarrow>
      (\<exists>msg. NnDistance2Op_Compute junkf junki xyz1_tensor xyz2_tensor =
         \<lparr>status = InvalidArgument msg, allocated = [], outputs = None\<rparr>)) \<and>
   (\<not> grad_shape_ok xyz1_tensor xyz2_tensor grad_dist1_tensor idx1_tensor grad_dist2_tensor idx2_tensor \<longrightarrow>
      (\<exists>msg. NnDistance2GradOp_Compute junkg xyz1_tensor xyz2_tensor grad_dist1_tensor idx1_tensor
               grad_dist2_tensor idx2_tensor =
         \<lparr>status = InvalidArgument msg, allocated = [], outputs = None\<rparr>))"
proof (intro conjI impI)
  assume "\<not> fwd_shape_ok xyz1_tensor xyz2_tensor"
  then show "\<exists>msg. NnDistance2Op_Compute junkf junki xyz1_tensor xyz2_tensor =
         \<lparr>status = InvalidArgument msg, allocated = [], outputs = None\<rparr>"
    unfolding fwd_shape_ok_def NnDistance2Op_Compute_def op_requires_failed_def Let_def
    by auto
next
  assume "\<not> grad_shape_ok xyz1_tensor xyz2_tensor grad_dist1_tensor idx1_tensor grad_dist2_tensor idx2_tensor"
  then show "\<exists>msg. NnDistance2GradOp_Compute junkg xyz1_tensor xyz2_tensor grad_dist1_tensor idx1_tensor
               grad_dist2_tensor idx2_tensor =
         \<lparr>status = InvalidArgument msg, allocated = [], outputs = None\<rparr>"
    unfolding grad_shape_ok_def fwd_shape_ok_def NnDistance2GradOp_Compute_def op_requires_failed_def Let_def
    by auto
qed

text \<open>
  A forward call with an input of rank 2, and a backward call whose \<open>idx1\<close> has rank 1.
\<close>

theorem shape_violation_fails_before_allocation_witness:
  "\<not> fwd_shape_ok \<lparr>shape = [2, 6], flat = [0, 0, 0, 0, 0, 0, 0, 0, 0, 0, 0, 0 :: real]\<rparr>
       \<lparr>shape = [1, 1, 6], flat = [0, 0, 0, 0, 0, 0 :: real]\<rparr> \<and>
   (\<exists>msg. NnDistance2Op_Compute ex_mem_f ex_mem_i \<lparr>shape = [2, 6], flat = [0, 0, 0, 0, 0, 0, 0, 0, 0, 0, 0, 0]\<rparr>
       \<lparr>shape = [1, 1, 6], flat = [0, 0, 0, 0, 0, 0]\<rparr> =
      \<lparr>status = InvalidArgument msg, allocated = [], outputs = None\<rparr>) \<and>
   \<not> grad_shape_ok \<lparr>shape = [1, 1, 6], flat = [0, 0, 0, 0, 0, 0 :: real]\<rparr>
       \<lparr>shape = [1, 1, 6], flat = [1, 0, 0, 0, 0, 0 :: real]\<rparr>
       \<lparr>shape = [1, 1], flat = [1 :: real]\<rparr> \<lparr>shape = [1], flat = [0]\<rparr>
       \<lparr>shape = [1, 1], flat = [0 :: real]\<rparr> \<lparr>shape = [1, 1], flat = [0]\<rparr> \<and>
   (\<exists>msg. NnDistance2GradOp_Compute ex_mem_f \<lparr>shape = [1, 1, 6], flat = [0, 0, 0, 0, 0, 0]\<rparr>
       \<lparr>shape = [1, 1, 6], flat = [1, 0, 0, 0, 0, 0]\<rparr>
       \<lparr>shape = [1, 1], flat = [1]\<rparr> \<lparr>shape = [1], flat = [0]\<rparr>
       \<lparr>shape = [1, 1], flat = [0]\<rparr> \<lparr>shape = [1, 1], flat = [0]\<rparr> =
      \<lparr>status = InvalidArgument msg, allocated = [], outputs = None\<rparr>)"
proof -
  have h1: "\<not> fwd_shape_ok \<lparr>shape = [2, 6], flat = [0, 0, 0, 0, 0, 0, 0, 0, 0, 0, 0, 0 :: real]\<rparr>
       \<lparr>shape = [1, 1, 6], flat = [0, 0, 0, 0, 0, 0 :: real]\<rparr>"
    by (simp add: fwd_shape_ok_def dims_def)
  have h2: "\<not> grad_shape_ok \<lparr>shape = [1, 1, 6], flat = [0, 0, 0, 0, 0, 0 :: real]\<rparr>
       \<lparr>shape = [1, 1, 6], flat = [1, 0, 0, 0, 0, 0 :: real]\<rparr>
       \<lparr>shape = [1, 1], flat = [1 :: real]\<rparr> \<lparr>shape = [1], flat = [0]\<rparr>
       \<lparr>shape = [1, 1], flat = [0 :: real]\<rparr> \<lparr>shape = [1, 1], flat = [0]\<rparr>"
    by (simp add: grad_shape_ok_def)
  note t = shape_violation_fails_before_allocation
    [of "\<lparr>shape = [2, 6], flat = [0, 0, 0, 0, 0, 0, 0, 0, 0, 0, 0, 0 :: real]\<rparr>"
       "\<lparr>shape = [1, 1, 6], flat = [0, 0, 0, 0, 0, 0 :: real]\<rparr>" ex_mem_f ex_mem_i]
  note u = shape_violation_fails_before_allocation
    [of "\<lparr>shape = [1, 1, 6], flat = [0, 0, 0, 0, 0, 0 :: real]\<rparr>"
       "\<lparr>shape = [1, 1, 6], flat = [1, 0, 0, 0, 0, 0 :: real]\<rparr>" _ _
       "\<lparr>shape = [1, 1], flat = [1 :: real]\<rparr>" "\<lparr>shape = [1], flat = [0]\<rparr>"
       "\<lparr>shape = [1, 1], flat = [0 :: real]\<rparr>" "\<lparr>shape = [1, 1], flat = [0]\<rparr>" ex_mem_f]
  from h1 t have a: "\<exists>msg. NnDistance2Op_Compute ex_mem_f ex_mem_i \<lparr>shape = [2, 6], flat = [0, 0, 0, 0, 0, 0, 0, 0, 0, 0, 0, 0]\<rparr>
       \<lparr>shape = [1, 1, 6], flat = [0, 0, 0, 0, 0, 0]\<rparr> =
      \<lparr>status = InvalidArgument msg, allocated = [], outputs = None\<rparr>" by blast
  from h2 u have b: "\<exists>msg. NnDistance2GradOp_Compute ex_mem_f \<lparr>shape = [1, 1, 6], flat = [0, 0, 0, 0, 0, 0]\<rparr>
       \<lparr>shape = [1, 1, 6], flat = [1, 0, 0, 0, 0, 0]\<rparr>
       \<lparr>shape = [1, 1], flat = [1]\<rparr> \<lparr>shape = [1], flat = [0]\<rparr>
       \<lparr>shape = [1, 1], flat = [0]\<rparr> \<lparr>shape = [1, 1], flat = [0]\<rparr> =
      \<lparr>status = InvalidArgument msg, allocated = [], outputs = None\<rparr>" by blast
  from h1 a h2 b show ?thesis by (intro conjI)
qed

text \<open>
  C5. Swapping the two input point sets of the forward call exactly swaps the two output
  pairs: where \<open>forward(xyz1, xyz2)\<close> returns \<open>(dist1, idx1, dist2, idx2)\<close>,
  \<open>forward(xyz2, xyz1)\<close> returns \<open>(dist2, idx2, dist1, idx1)\<close>, whatever the uninitialised
  output buffers held.
\<close>

theorem forward_swap_symmetry:
  assumes "fwd_accepted xyz1_tensor xyz2_tensor B N M"
  shows "\<exists>d1 i1 d2 i2.
     NnDistance2Op_Compute junkf junki xyz1_tensor xyz2_tensor =
       \<lparr>status = OK, allocated = [[B, N], [B, N], [B, M], [B, M]],
        outputs = Some \<lparr>out_dist1 = d1, out_idx1 = i1, out_dist2 = d2, out_idx2 = i2\<rparr>\<rparr> \<and>
     NnDistance2Op_Compute junkf' junki' xyz2_tensor xyz1_tensor =
       \<lparr>status = OK, allocated = [[B, M], [B, M], [B, N], [B, N]],
        outputs = Some \<lparr>out_dist1 = d2, out_idx1 = i2, out_dist2 = d1, out_idx2 = i1\<rparr>\<rparr>"
proof -
  define d1 where "d1 = \<lparr>shape = [B, N],
      flat = map (\<lambda>q. fst (nn_result M (flat xyz1_tensor) (flat xyz2_tensor) (q div N) q)) [0..<B * N]\<rparr>"
  define i1 where "i1 = \<lparr>shape = [B, N],
      flat = map (\<lambda>q. snd (nn_result M (flat xyz1_tensor) (flat xyz2_tensor) (q div N) q)) [0..<B * N]\<rparr>"
  define d2 where "d2 = \<lparr>shape = [B, M],
      flat = map (\<lambda>q. fst (nn_result N (flat xyz2_tensor) (flat xyz1_tensor) (q div M) q)) [0..<B * M]\<rparr>"
  define i2 where "i2 = \<lparr>shape = [B, M],
      flat = map (\<lambda>q. snd (nn_result N (flat xyz2_tensor) (flat xyz1_tensor) (q div M) q)) [0..<B * M]\<rparr>"
  have r1: "NnDistance2Op_Compute junkf junki xyz1_tensor xyz2_tensor =
       \<lparr>status = OK, allocated = [[B, N], [B, N], [B, M], [B, M]],
        outputs = Some \<lparr>out_dist1 = d1, out_idx1 = i1, out_dist2 = d2, out_idx2 = i2\<rparr>\<rparr>"
    unfolding d1_def i1_def d2_def i2_def by (rule Compute_fwd_lists [OF assms])
  have r2: "NnDistance2Op_Compute junkf' junki' xyz2_tensor xyz1_tensor =
       \<lparr>status = OK, allocated = [[B, M], [B, M], [B, N], [B, N]],
        outputs = Some \<lparr>out_dist1 = d2, out_idx1 = i2, out_dist2 = d1, out_idx2 = i1\<rparr>\<rparr>"
    unfolding d1_def i1_def d2_def i2_def by (rule Compute_fwd_lists [OF fwd_accepted_swap [OF assms]])
  show ?thesis
    by (rule exI [of _ d1], rule exI [of _ i1], rule exI [of _ d2], rule exI [of _ i2])
       (rule conjI [OF r1 r2])
qed

text \<open>An instance with one point against two.\<close>

theorem forward_swap_symmetry_witness:
  "fwd_accepted \<lparr>shape = [1, 1, 6], flat = [0, 0, 0, 0, 0, 0 :: real]\<rparr>
     \<lparr>shape = [1, 2, 6], flat = [3, 0, 0, 0, 0, 0, 0, 1, 0, 0, 0, 0]\<rparr> 1 1 2 \<and>
   (\<exists>d1 i1 d2 i2.
     NnDistance2Op_Compute ex_mem_f ex_mem_i \<lparr>shape = [1, 1, 6], flat = [0, 0, 0, 0, 0, 0]\<rparr>
        \<lparr>shape = [1, 2, 6], flat = [3, 0, 0, 0, 0, 0, 0, 1, 0, 0, 0, 0]\<rparr> =
       \<lparr>status = OK, allocated = [[1, 1], [1, 1], [1, 2], [1, 2]],
        outputs = Some \<lparr>out_dist1 = d1, out_idx1 = i1, out_dist2 = d2, out_idx2 = i2\<rparr>\<rparr> \<and>
     NnDistance2Op_Compute ex_mem_f ex_mem_i \<lparr>shape = [1, 2, 6], flat = [3, 0, 0, 0, 0, 0, 0, 1, 0, 0, 0, 0]\<rparr>
        \<lparr>shape = [1, 1, 6], flat = [0, 0, 0, 0, 0, 0]\<rparr> =
       \<lparr>status = OK, allocated = [[1, 2], [1, 2], [1, 1], [1, 1]],
        outputs = Some \<lparr>out_dist1 = d2, out_idx1 = i2, out_dist2 = d1, out_idx2 = i1\<rparr>\<rparr>)"
proof -
  have h: "fwd_accepted \<lparr>shape = [1, 1, 6], flat = [0, 0, 0, 0, 0, 0 :: real]\<rparr>
     \<lparr>shape = [1, 2, 6], flat = [3, 0, 0, 0, 0, 0, 0, 1, 0, 0, 0, 0]\<rparr> 1 1 2"
    by (simp add: fwd_accepted_def wf_tensor_def num_elements_def)
  from h forward_swap_symmetry [OF h, of ex_mem_f ex_mem_i ex_mem_f ex_mem_i]
  show ?thesis by (rule conjI)
qed

text \<open>
  C6, as amended. In every backward call where every \<open>idx1[i,j]\<close> lies in \<open>[0, M)\<close> and every
  \<open>idx2[i,j]\<close> in \<open>[0, N)\<close>, \<open>gradDist2\<close> is identically zero and no two distinct points of
  \<open>xyz1\<close> in the same batch share the same \<open>idx1\<close> value, the slice \<open>gradXyz1[i,j,:]\<close> is the
  exact negation of \<open>gradXyz2[i,k,:]\<close> for \<open>k = idx1[i,j]\<close>, for every batch \<open>i\<close> and point \<open>j\<close>.
\<close>

theorem backward_antisymmetry:
  assumes acc: "grad_accepted xyz1_tensor xyz2_tensor grad_dist1_tensor idx1_tensor grad_dist2_tensor idx2_tensor B N M"
    and r1: "\<forall>i<B. \<forall>j<N. 0 \<le> flat idx1_tensor ! (i * N + j) \<and> flat idx1_tensor ! (i * N + j) < int M"
    and r2: "\<forall>i<B. \<forall>j<M. 0 \<le> flat idx2_tensor ! (i * M + j) \<and> flat idx2_tensor ! (i * M + j) < int N"
    and z: "\<forall>i<B. \<forall>j<M. flat grad_dist2_tensor ! (i * M + j) = 0"
    and inj: "\<forall>i<B. \<forall>j<N. \<forall>j'<N.
        flat idx1_tensor ! (i * N + j) = flat idx1_tensor ! (i * N + j') \<longrightarrow> j = j'"
  shows "\<exists>g1 g2.
     NnDistance2GradOp_Compute junkf xyz1_tensor xyz2_tensor grad_dist1_tensor idx1_tensor
         grad_dist2_tensor idx2_tensor =
       \<lparr>status = OK, allocated = [[B, N, 6], [B, M, 6]],
        outputs = Some \<lparr>out_grad_xyz1 = \<lparr>shape = [B, N, 6], flat = g1\<rparr>,
                        out_grad_xyz2 = \<lparr>shape = [B, M, 6], flat = g2\<rparr>\<rparr>\<rparr> \<and>
     (\<forall>i<B. \<forall>j<N. \<forall>c<6.
        g1 ! ((i * N + j) * 6 + c) = - g2 ! ((i * M + nat (flat idx1_tensor ! (i * N + j))) * 6 + c))"
proof -
  define X1 where "X1 = flat xyz1_tensor"
  define X2 where "X2 = flat xyz2_tensor"
  define D1 where "D1 = flat grad_dist1_tensor"
  define D2 where "D2 = flat grad_dist2_tensor"
  define I1 where "I1 = flat idx1_tensor"
  define I2 where "I2 = flat idx2_tensor"
  define g1 where "g1 = map (\<lambda>q. grad_total B N M X1 X2 D1 I1 D2 I2 (True, q)) [0..<B * N * 6]"
  define g2 where "g2 = map (\<lambda>q. grad_total B N M X1 X2 D1 I1 D2 I2 (False, q)) [0..<B * M * 6]"
  have t: "all_targets_ok B N M (flat idx1_tensor) (flat idx2_tensor)"
    by (rule in_range_all_targets_ok [OF r1 r2])
  have r: "NnDistance2GradOp_Compute junkf xyz1_tensor xyz2_tensor grad_dist1_tensor idx1_tensor
         grad_dist2_tensor idx2_tensor =
       \<lparr>status = OK, allocated = [[B, N, 6], [B, M, 6]],
        outputs = Some \<lparr>out_grad_xyz1 = \<lparr>shape = [B, N, 6], flat = g1\<rparr>,
                        out_grad_xyz2 = \<lparr>shape = [B, M, 6], flat = g2\<rparr>\<rparr>\<rparr>"
    unfolding g1_def g2_def X1_def X2_def D1_def D2_def I1_def I2_def
      Compute_grad_lists [OF acc] if_P [OF t] ..
  have c2: "contrib M N X2 X1 D2 I2 i' j' c = 0" if "i' < B" "j' < M" for i' j' c
    using z that by (simp add: contrib_def D2_def)
  have p: "g1 ! ((i * N + j) * 6 + c) = - g2 ! ((i * M + nat (I1 ! (i * N + j))) * 6 + c)"
    if a: "i < B" "j < N" "c < 6" for i j c
  proof -
    define K where "K = nat (I1 ! (i * N + j))"
    from r1 a have "0 \<le> I1 ! (i * N + j) \<and> I1 ! (i * N + j) < int M"
      by (simp add: I1_def)
    then have K: "I1 ! (i * N + j) = int K" "K < M"
      unfolding K_def by linarith+
    have s1: "(\<Sum>i'<B. \<Sum>j'<M. if int (i' * N) + I2 ! (i' * M + j') = int (i * N + j)
                 then contrib M N X2 X1 D2 I2 i' j' c else 0) = 0"
      by (intro sum.neutral ballI) (simp add: c2)
    have cond: "(int (i' * M) + I1 ! (i' * N + j') = int (i * M + K)) = (i * N + j = i' * N + j')"
      if b: "i' < B" "j' < N" for i' j'
    proof -
      define K' where "K' = nat (I1 ! (i' * N + j'))"
      from r1 b have "0 \<le> I1 ! (i' * N + j') \<and> I1 ! (i' * N + j') < int M"
        by (simp add: I1_def)
      then have K': "I1 ! (i' * N + j') = int K'" "K' < M"
        unfolding K'_def by linarith+
      have "(int (i' * M) + I1 ! (i' * N + j') = int (i * M + K)) = (i * M + K = i' * M + K')"
        unfolding K'(1) by (simp only: of_nat_add [symmetric] of_nat_eq_iff eq_commute)
      also have "\<dots> = (i' = i \<and> K' = K)"
        by (rule point_index_eq [OF K(2) K'(2)])
      also have "\<dots> = (i' = i \<and> j' = j)"
      proof (cases "i' = i")
        case True
        from inj a b True have "I1 ! (i * N + j) = I1 ! (i * N + j') \<longrightarrow> j = j'"
          by (simp add: I1_def)
        with True K K' show ?thesis by auto
      next
        case False
        then show ?thesis by simp
      qed
      also have "\<dots> = (i * N + j = i' * N + j')"
        by (rule point_index_eq [OF a(2) b(2), symmetric])
      finally show ?thesis .
    qed
    have s2: "(\<Sum>i'<B. \<Sum>j'<N. if int (i' * M) + I1 ! (i' * N + j') = int (i * M + K)
                 then contrib N M X1 X2 D1 I1 i' j' c else 0) = contrib N M X1 X2 D1 I1 i j c"
    proof -
      have "(\<Sum>i'<B. \<Sum>j'<N. if int (i' * M) + I1 ! (i' * N + j') = int (i * M + K)
                 then contrib N M X1 X2 D1 I1 i' j' c else 0) =
            (\<Sum>i'<B. \<Sum>j'<N. if i * N + j = i' * N + j'
                 then contrib N M X1 X2 D1 I1 i' j' c else 0)"
      proof (rule sum.cong [OF refl], rule sum.cong [OF refl])
        fix i' j' assume "i' \<in> {..<B}" "j' \<in> {..<N}"
        then have b: "i' < B" "j' < N" by simp_all
        show "(if int (i' * M) + I1 ! (i' * N + j') = int (i * M + K)
                 then contrib N M X1 X2 D1 I1 i' j' c else 0) =
              (if i * N + j = i' * N + j' then contrib N M X1 X2 D1 I1 i' j' c else 0)"
          unfolding cond [OF b] ..
      qed
      also have "\<dots> = contrib N M X1 X2 D1 I1 i j c"
        by (rule sum_point_delta [OF a(1,2)])
      finally show ?thesis .
    qed
    have "g1 ! ((i * N + j) * 6 + c) = grad_total B N M X1 X2 D1 I1 D2 I2 (True, (i * N + j) * 6 + c)"
      using coord_in_range [OF a] by (simp add: g1_def)
    also have "\<dots> = contrib N M X1 X2 D1 I1 i j c"
      unfolding grad_total_1 [OF a] s1 by simp
    finally have v1: "g1 ! ((i * N + j) * 6 + c) = contrib N M X1 X2 D1 I1 i j c" .
    have "g2 ! ((i * M + K) * 6 + c) = grad_total B N M X1 X2 D1 I1 D2 I2 (False, (i * M + K) * 6 + c)"
      using coord_in_range [OF a(1) K(2) a(3)] by (simp add: g2_def)
    also have "\<dots> = - contrib N M X1 X2 D1 I1 i j c"
      unfolding grad_total_2 [OF a(1) K(2) a(3)] s2 c2 [OF a(1) K(2)] by simp
    finally have v2: "g2 ! ((i * M + K) * 6 + c) = - contrib N M X1 X2 D1 I1 i j c" .
    show ?thesis unfolding K_def [symmetric] v1 v2 by simp
  qed
  have "\<forall>i<B. \<forall>j<N. \<forall>c<6.
        g1 ! ((i * N + j) * 6 + c) = - g2 ! ((i * M + nat (flat idx1_tensor ! (i * N + j))) * 6 + c)"
    using p unfolding I1_def by blast
  with r show ?thesis
    by (intro exI [of _ g1] exI [of _ g2] conjI)
qed

text \<open>Two points against two, matched crosswise.\<close>

theorem backward_antisymmetry_witness:
  "grad_accepted \<lparr>shape = [1, 2, 6], flat = [0, 0, 0, 0, 0, 0, 4, 0, 0, 0, 0, 0 :: real]\<rparr>
     \<lparr>shape = [1, 2, 6], flat = [1, 0, 0, 0, 0, 0, 2, 0, 0, 0, 0, 0]\<rparr>
     \<lparr>shape = [1, 2], flat = [1, 3]\<rparr> \<lparr>shape = [1, 2], flat = [1, 0]\<rparr>
     \<lparr>shape = [1, 2], flat = [0, 0]\<rparr> \<lparr>shape = [1, 2], flat = [0, 0]\<rparr> 1 2 2 \<and>
   (\<exists>g1 g2.
      NnDistance2GradOp_Compute ex_mem_f \<lparr>shape = [1, 2, 6], flat = [0, 0, 0, 0, 0, 0, 4, 0, 0, 0, 0, 0]\<rparr>
        \<lparr>shape = [1, 2, 6], flat = [1, 0, 0, 0, 0, 0, 2, 0, 0, 0, 0, 0]\<rparr>
        \<lparr>shape = [1, 2], flat = [1, 3]\<rparr> \<lparr>shape = [1, 2], flat = [1, 0]\<rparr>
        \<lparr>shape = [1, 2], flat = [0, 0]\<rparr> \<lparr>shape = [1, 2], flat = [0, 0]\<rparr> =
      \<lparr>status = OK, allocated = [[1, 2, 6], [1, 2, 6]],
       outputs = Some \<lparr>out_grad_xyz1 = \<lparr>shape = [1, 2, 6], flat = g1\<rparr>,
                       out_grad_xyz2 = \<lparr>shape = [1, 2, 6], flat = g2\<rparr>\<rparr>\<rparr> \<and>
      g1 ! 0 = - g2 ! 6 \<and> g1 ! 6 = - g2 ! 0)"
proof -
  have h: "grad_accepted \<lparr>shape = [1, 2, 6], flat = [0, 0, 0, 0, 0, 0, 4, 0, 0, 0, 0, 0 :: real]\<rparr>
     \<lparr>shape = [1, 2, 6], flat = [1, 0, 0, 0, 0, 0, 2, 0, 0, 0, 0, 0]\<rparr>
     \<lparr>shape = [1, 2], flat = [1, 3]\<rparr> \<lparr>shape = [1, 2], flat = [1, 0]\<rparr>
     \<lparr>shape = [1, 2], flat = [0, 0]\<rparr> \<lparr>shape = [1, 2], flat = [0, 0]\<rparr> 1 2 2"
    by (simp add: grad_accepted_def fwd_accepted_def wf_tensor_def num_elements_def)
  have two: "j < 2 \<longleftrightarrow> j = 0 \<or> j = 1" for j :: nat by auto
  have r1: "\<forall>i<1. \<forall>j<2. 0 \<le> flat \<lparr>shape = [1, 2], flat = [1, 0 :: int]\<rparr> ! (i * 2 + j) \<and>
      flat \<lparr>shape = [1, 2], flat = [1, 0 :: int]\<rparr> ! (i * 2 + j) < int 2"
    by (auto simp: two)
  have r2: "\<forall>i<1. \<forall>j<2. 0 \<le> flat \<lparr>shape = [1, 2], flat = [0, 0 :: int]\<rparr> ! (i * 2 + j) \<and>
      flat \<lparr>shape = [1, 2], flat = [0, 0 :: int]\<rparr> ! (i * 2 + j) < int 2"
    by (auto simp: two)
  have z: "\<forall>i<1. \<forall>j<2. flat \<lparr>shape = [1, 2], flat = [0, 0 :: real]\<rparr> ! (i * 2 + j) = 0"
    by (auto simp: two)
  have inj: "\<forall>i<1. \<forall>j<2. \<forall>j'<2.
      flat \<lparr>shape = [1, 2], flat = [1, 0 :: int]\<rparr> ! (i * 2 + j) =
      flat \<lparr>shape = [1, 2], flat = [1, 0 :: int]\<rparr> ! (i * 2 + j') \<longrightarrow> j = j'"
    by (auto simp: two)
  note T = backward_antisymmetry [OF h r1 r2 z inj, of ex_mem_f, unfolded tensor.select_convs]
  from T obtain g1 g2 where r: "NnDistance2GradOp_Compute ex_mem_f \<lparr>shape = [1, 2, 6], flat = [0, 0, 0, 0, 0, 0, 4, 0, 0, 0, 0, 0]\<rparr>
        \<lparr>shape = [1, 2, 6], flat = [1, 0, 0, 0, 0, 0, 2, 0, 0, 0, 0, 0]\<rparr>
        \<lparr>shape = [1, 2], flat = [1, 3]\<rparr> \<lparr>shape = [1, 2], flat = [1, 0]\<rparr>
        \<lparr>shape = [1, 2], flat = [0, 0]\<rparr> \<lparr>shape = [1, 2], flat = [0, 0]\<rparr> =
      \<lparr>status = OK, allocated = [[1, 2, 6], [1, 2, 6]],
       outputs = Some \<lparr>out_grad_xyz1 = \<lparr>shape = [1, 2, 6], flat = g1\<rparr>,
                       out_grad_xyz2 = \<lparr>shape = [1, 2, 6], flat = g2\<rparr>\<rparr>\<rparr>"
    and p: "\<forall>i<1. \<forall>j<2. \<forall>c<6.
        g1 ! ((i * 2 + j) * 6 + c) = - g2 ! ((i * 2 + nat ([1, 0] ! (i * 2 + j))) * 6 + c)"
    by (elim exE conjE) (rule that; assumption)
  from p [rule_format, of 0 0 0] p [rule_format, of 0 1 0]
  have v: "g1 ! 0 = - g2 ! 6 \<and> g1 ! 6 = - g2 ! 0" by simp
  have "\<exists>g1 g2.
      NnDistance2GradOp_Compute ex_mem_f \<lparr>shape = [1, 2, 6], flat = [0, 0, 0, 0, 0, 0, 4, 0, 0, 0, 0, 0]\<rparr>
        \<lparr>shape = [1, 2, 6], flat = [1, 0, 0, 0, 0, 0, 2, 0, 0, 0, 0, 0]\<rparr>
        \<lparr>shape = [1, 2], flat = [1, 3]\<rparr> \<lparr>shape = [1, 2], flat = [1, 0]\<rparr>
        \<lparr>shape = [1, 2], flat = [0, 0]\<rparr> \<lparr>shape = [1, 2], flat = [0, 0]\<rparr> =
      \<lparr>status = OK, allocated = [[1, 2, 6], [1, 2, 6]],
       outputs = Some \<lparr>out_grad_xyz1 = \<lparr>shape = [1, 2, 6], flat = g1\<rparr>,
                       out_grad_xyz2 = \<lparr>shape = [1, 2, 6], flat = g2\<rparr>\<rparr>\<rparr> \<and>
      g1 ! 0 = - g2 ! 6 \<and> g1 ! 6 = - g2 ! 0"
    by (rule exI [of _ g1], rule exI [of _ g2]) (rule conjI [OF r v])
  with h show ?thesis by (rule conjI)
qed

text \<open>
  C6 as stated fails when an index is out of range but inside the flat buffer: with
  \<open>B = 2\<close>, \<open>N = M = 1\<close> and \<open>idx1 = [1, 0]\<close>, the point of batch 0 and the point of batch 1 both
  address the point of \<open>xyz2\<close> at flat offset 1. No two points of one batch share an index and
  \<open>gradDist2\<close> is zero, the call runs to its end, and \<open>gradXyz1[0,0,0] = -8\<close> while the cell
  \<open>gradXyz2[0,1,0]\<close> (flat offset 6) holds 18.
\<close>

theorem backward_antisymmetry_counterexample:
  "NnDistance2GradOp_Compute ex_mem_f
     \<lparr>shape = [2, 1, 6], flat = [1, 0, 0, 0, 0, 0, 0, 0, 0, 0, 0, 0]\<rparr>
     \<lparr>shape = [2, 1, 6], flat = [0, 0, 0, 0, 0, 0, 5, 0, 0, 0, 0, 0]\<rparr>
     \<lparr>shape = [2, 1], flat = [1, 1]\<rparr> \<lparr>shape = [2, 1], flat = [1, 0]\<rparr>
     \<lparr>shape = [2, 1], flat = [0, 0]\<rparr> \<lparr>shape = [2, 1], flat = [0, 0]\<rparr> =
   \<lparr>status = OK, allocated = [[2, 1, 6], [2, 1, 6]],
    outputs = Some \<lparr>out_grad_xyz1 = \<lparr>shape = [2, 1, 6], flat = [- 8, 0, 0, 0, 0, 0, - 10, 0, 0, 0, 0, 0]\<rparr>,
                    out_grad_xyz2 = \<lparr>shape = [2, 1, 6], flat = [0, 0, 0, 0, 0, 0, 18, 0, 0, 0, 0, 0]\<rparr>\<rparr>\<rparr> \<and>
   [- 8, 0, 0, 0, 0, 0, - 10, 0, 0, 0, 0, 0 :: real] ! ((0 * 1 + 0) * 6 + 0) \<noteq>
   - ([0, 0, 0, 0, 0, 0, 18, 0, 0, 0, 0, 0 :: real] ! ((0 * 1 + nat ([1, 0] ! (0 * 1 + 0))) * 6 + 0))"
proof -
  have a: "NnDistance2GradOp_Compute ex_mem_f
     \<lparr>shape = [2, 1, 6], flat = [1, 0, 0, 0, 0, 0, 0, 0, 0, 0, 0, 0]\<rparr>
     \<lparr>shape = [2, 1, 6], flat = [0, 0, 0, 0, 0, 0, 5, 0, 0, 0, 0, 0]\<rparr>
     \<lparr>shape = [2, 1], flat = [1, 1]\<rparr> \<lparr>shape = [2, 1], flat = [1, 0]\<rparr>
     \<lparr>shape = [2, 1], flat = [0, 0]\<rparr> \<lparr>shape = [2, 1], flat = [0, 0]\<rparr> =
   \<lparr>status = OK, allocated = [[2, 1, 6], [2, 1, 6]],
    outputs = Some \<lparr>out_grad_xyz1 = \<lparr>shape = [2, 1, 6], flat = [- 8, 0, 0, 0, 0, 0, - 10, 0, 0, 0, 0, 0]\<rparr>,
                    out_grad_xyz2 = \<lparr>shape = [2, 1, 6], flat = [0, 0, 0, 0, 0, 0, 18, 0, 0, 0, 0, 0]\<rparr>\<rparr>\<rparr>"
    by code_simp
  have b: "[- 8, 0, 0, 0, 0, 0, - 10, 0, 0, 0, 0, 0 :: real] ! ((0 * 1 + 0) * 6 + 0) \<noteq>
   - ([0, 0, 0, 0, 0, 0, 18, 0, 0, 0, 0, 0 :: real] ! ((0 * 1 + nat ([1, 0] ! (0 * 1 + 0))) * 6 + 0))"
    by simp
  from a b show ?thesis by (rule conjI)
qed

text \<open>
  C7, as amended. Every index the forward pass returns for a non-empty opposite set is a
  valid reference into it: \<open>idx1[i,j]\<close> lies in \<open>[0, M)\<close> when \<open>M \<ge> 1\<close> and \<open>idx2[i,j]\<close> in
  \<open>[0, N)\<close> when \<open>N \<ge> 1\<close>. When the opposite set has zero points the index written is 0
  (the initial value of \<^verbatim>\<open>besti\<close>), which refers to no point.
\<close>

theorem forward_index_range:
  assumes "fwd_accepted xyz1_tensor xyz2_tensor B N M"
  shows "\<exists>d1 i1 d2 i2.
     NnDistance2Op_Compute junkf junki xyz1_tensor xyz2_tensor =
       \<lparr>status = OK, allocated = [[B, N], [B, N], [B, M], [B, M]],
        outputs = Some \<lparr>out_dist1 = \<lparr>shape = [B, N], flat = d1\<rparr>, out_idx1 = \<lparr>shape = [B, N], flat = i1\<rparr>,
                        out_dist2 = \<lparr>shape = [B, M], flat = d2\<rparr>, out_idx2 = \<lparr>shape = [B, M], flat = i2\<rparr>\<rparr>\<rparr> \<and>
     (1 \<le> M \<longrightarrow> (\<forall>i<B. \<forall>j<N. 0 \<le> i1 ! (i * N + j) \<and> i1 ! (i * N + j) < int M)) \<and>
     (M = 0 \<longrightarrow> (\<forall>i<B. \<forall>j<N. i1 ! (i * N + j) = 0)) \<and>
     (1 \<le> N \<longrightarrow> (\<forall>i<B. \<forall>j<M. 0 \<le> i2 ! (i * M + j) \<and> i2 ! (i * M + j) < int N)) \<and>
     (N = 0 \<longrightarrow> (\<forall>i<B. \<forall>j<M. i2 ! (i * M + j) = 0))"
proof -
  have one: "0 \<le> snd (nn_result M X Y i p) \<and> snd (nn_result M X Y i p) < int M"
    if "1 \<le> M" for M i p and X Y :: "'a list"
  proof -
    from that have "0 < M" by simp
    from nn_result_spec [OF this, of X Y i p] show ?thesis by auto
  qed
  define d1 where "d1 = map (\<lambda>q. fst (nn_result M (flat xyz1_tensor) (flat xyz2_tensor) (q div N) q)) [0..<B * N]"
  define i1 where "i1 = map (\<lambda>q. snd (nn_result M (flat xyz1_tensor) (flat xyz2_tensor) (q div N) q)) [0..<B * N]"
  define d2 where "d2 = map (\<lambda>q. fst (nn_result N (flat xyz2_tensor) (flat xyz1_tensor) (q div M) q)) [0..<B * M]"
  define i2 where "i2 = map (\<lambda>q. snd (nn_result N (flat xyz2_tensor) (flat xyz1_tensor) (q div M) q)) [0..<B * M]"
  have r: "NnDistance2Op_Compute junkf junki xyz1_tensor xyz2_tensor =
       \<lparr>status = OK, allocated = [[B, N], [B, N], [B, M], [B, M]],
        outputs = Some \<lparr>out_dist1 = \<lparr>shape = [B, N], flat = d1\<rparr>, out_idx1 = \<lparr>shape = [B, N], flat = i1\<rparr>,
                        out_dist2 = \<lparr>shape = [B, M], flat = d2\<rparr>, out_idx2 = \<lparr>shape = [B, M], flat = i2\<rparr>\<rparr>\<rparr>"
    unfolding d1_def i1_def d2_def i2_def by (rule Compute_fwd_lists [OF assms])
  have p1: "\<forall>i<B. \<forall>j<N. 0 \<le> i1 ! (i * N + j) \<and> i1 ! (i * N + j) < int M" if "1 \<le> M"
    unfolding i1_def using one [OF that] by (simp add: fwd_nth)
  have q1: "\<forall>i<B. \<forall>j<N. i1 ! (i * N + j) = 0" if "M = 0"
    unfolding i1_def that by (simp add: fwd_nth nn_result_empty)
  have p2: "\<forall>i<B. \<forall>j<M. 0 \<le> i2 ! (i * M + j) \<and> i2 ! (i * M + j) < int N" if "1 \<le> N"
    unfolding i2_def using one [OF that] by (simp add: fwd_nth)
  have q2: "\<forall>i<B. \<forall>j<M. i2 ! (i * M + j) = 0" if "N = 0"
    unfolding i2_def that by (simp add: fwd_nth nn_result_empty)
  show ?thesis
    by (rule exI [of _ d1], rule exI [of _ i1], rule exI [of _ d2], rule exI [of _ i2])
       (intro conjI impI r; erule p1 q1 p2 q2)
qed

text \<open>An instance with one point against two.\<close>

theorem forward_index_range_witness:
  "fwd_accepted \<lparr>shape = [1, 1, 6], flat = [0, 0, 0, 0, 0, 0 :: real]\<rparr>
     \<lparr>shape = [1, 2, 6], flat = [3, 0, 0, 0, 0, 0, 0, 1, 0, 0, 0, 0]\<rparr> 1 1 2 \<and>
   (\<exists>d1 i1 d2 i2.
     NnDistance2Op_Compute ex_mem_f ex_mem_i \<lparr>shape = [1, 1, 6], flat = [0, 0, 0, 0, 0, 0]\<rparr>
        \<lparr>shape = [1, 2, 6], flat = [3, 0, 0, 0, 0, 0, 0, 1, 0, 0, 0, 0]\<rparr> =
       \<lparr>status = OK, allocated = [[1, 1], [1, 1], [1, 2], [1, 2]],
        outputs = Some \<lparr>out_dist1 = \<lparr>shape = [1, 1], flat = d1\<rparr>, out_idx1 = \<lparr>shape = [1, 1], flat = i1\<rparr>,
                        out_dist2 = \<lparr>shape = [1, 2], flat = d2\<rparr>, out_idx2 = \<lparr>shape = [1, 2], flat = i2\<rparr>\<rparr>\<rparr> \<and>
     0 \<le> i1 ! 0 \<and> i1 ! 0 < 2 \<and> 0 \<le> i2 ! 0 \<and> i2 ! 0 < 1 \<and> 0 \<le> i2 ! 1 \<and> i2 ! 1 < 1)"
proof -
  have h: "fwd_accepted \<lparr>shape = [1, 1, 6], flat = [0, 0, 0, 0, 0, 0 :: real]\<rparr>
     \<lparr>shape = [1, 2, 6], flat = [3, 0, 0, 0, 0, 0, 0, 1, 0, 0, 0, 0]\<rparr> 1 1 2"
    by (simp add: fwd_accepted_def wf_tensor_def num_elements_def)
  from forward_index_range [OF h, of ex_mem_f ex_mem_i]
  obtain d1 i1 d2 i2 where r: "NnDistance2Op_Compute ex_mem_f ex_mem_i \<lparr>shape = [1, 1, 6], flat = [0, 0, 0, 0, 0, 0]\<rparr>
        \<lparr>shape = [1, 2, 6], flat = [3, 0, 0, 0, 0, 0, 0, 1, 0, 0, 0, 0]\<rparr> =
       \<lparr>status = OK, allocated = [[1, 1], [1, 1], [1, 2], [1, 2]],
        outputs = Some \<lparr>out_dist1 = \<lparr>shape = [1, 1], flat = d1\<rparr>, out_idx1 = \<lparr>shape = [1, 1], flat = i1\<rparr>,
                        out_dist2 = \<lparr>shape = [1, 2], flat = d2\<rparr>, out_idx2 = \<lparr>shape = [1, 2], flat = i2\<rparr>\<rparr>\<rparr>"
    and p1: "\<forall>i<1. \<forall>j<1. 0 \<le> i1 ! (i * 1 + j) \<and> i1 ! (i * 1 + j) < int 2"
    and p2: "\<forall>i<1. \<forall>j<2. 0 \<le> i2 ! (i * 2 + j) \<and> i2 ! (i * 2 + j) < int 1"
    by auto
  from p1 [rule_format, of 0 0] p2 [rule_format, of 0 0] p2 [rule_format, of 0 1]
  have v: "0 \<le> i1 ! 0 \<and> i1 ! 0 < 2 \<and> 0 \<le> i2 ! 0 \<and> i2 ! 0 < 1 \<and> 0 \<le> i2 ! 1 \<and> i2 ! 1 < 1"
    by simp
  have "\<exists>d1 i1 d2 i2.
     NnDistance2Op_Compute ex_mem_f ex_mem_i \<lparr>shape = [1, 1, 6], flat = [0, 0, 0, 0, 0, 0]\<rparr>
        \<lparr>shape = [1, 2, 6], flat = [3, 0, 0, 0, 0, 0, 0, 1, 0, 0, 0, 0]\<rparr> =
       \<lparr>status = OK, allocated = [[1, 1], [1, 1], [1, 2], [1, 2]],
        outputs = Some \<lparr>out_dist1 = \<lparr>shape = [1, 1], flat = d1\<rparr>, out_idx1 = \<lparr>shape = [1, 1], flat = i1\<rparr>,
                        out_dist2 = \<lparr>shape = [1, 2], flat = d2\<rparr>, out_idx2 = \<lparr>shape = [1, 2], flat = i2\<rparr>\<rparr>\<rparr> \<and>
     0 \<le> i1 ! 0 \<and> i1 ! 0 < 2 \<and> 0 \<le> i2 ! 0 \<and> i2 ! 0 < 1 \<and> 0 \<le> i2 ! 1 \<and> i2 ! 1 < 1"
    by (rule exI [of _ d1], rule exI [of _ i1], rule exI [of _ d2], rule exI [of _ i2])
       (rule conjI [OF r v])
  with h show ?thesis by (rule conjI)
qed

text \<open>
  C7 as stated fails: with \<open>B = 1\<close>, \<open>N = 1\<close>, \<open>M = 0\<close> the call is accepted and returns
  \<open>idx1[0,0] = 0\<close>, which is not in \<open>[0, M) = [0, 0)\<close>.
\<close>

theorem forward_index_range_counterexample:
  "NnDistance2Op_Compute ex_mem_f ex_mem_i
     \<lparr>shape = [1, 1, 6], flat = [0, 0, 0, 0, 0, 0]\<rparr> \<lparr>shape = [1, 0, 6], flat = []\<rparr> =
   \<lparr>status = OK, allocated = [[1, 1], [1, 1], [1, 0], [1, 0]],
    outputs = Some \<lparr>out_dist1 = \<lparr>shape = [1, 1], flat = [0]\<rparr>, out_idx1 = \<lparr>shape = [1, 1], flat = [0]\<rparr>,
                    out_dist2 = \<lparr>shape = [1, 0], flat = []\<rparr>, out_idx2 = \<lparr>shape = [1, 0], flat = []\<rparr>\<rparr>\<rparr> \<and>
   \<not> (0 \<le> [0 :: int] ! (0 * 1 + 0) \<and> [0 :: int] ! (0 * 1 + 0) < int 0)"
  by (simp add: NnDistance2Op_Compute_def dims_def dim_size_def allocate_output_def
        num_elements_def Let_def nnsearch_def for_loop_Suc nnsearch_point_def rd_def wr_def
        ex_mem_f_def ex_mem_i_def)

text \<open>
  C8, as amended. An accepted forward call has no special case for a zero dimension: every
  output has exactly its \<open>B * N\<close> or \<open>B * M\<close> elements, all of them written. So with \<open>B = 0\<close> all
  four outputs are empty, with \<open>N = 0\<close> the pair \<open>dist1, idx1\<close> is empty and with \<open>M = 0\<close> the
  pair \<open>dist2, idx2\<close> is empty; but the pair of the other, non-empty set is not empty: each of
  its elements is written as distance 0 and index 0.
\<close>

theorem forward_zero_size:
  assumes "fwd_accepted xyz1_tensor xyz2_tensor B N M"
  shows "\<exists>d1 i1 d2 i2.
     NnDistance2Op_Compute junkf junki xyz1_tensor xyz2_tensor =
       \<lparr>status = OK, allocated = [[B, N], [B, N], [B, M], [B, M]],
        outputs = Some \<lparr>out_dist1 = \<lparr>shape = [B, N], flat = d1\<rparr>, out_idx1 = \<lparr>shape = [B, N], flat = i1\<rparr>,
                        out_dist2 = \<lparr>shape = [B, M], flat = d2\<rparr>, out_idx2 = \<lparr>shape = [B, M], flat = i2\<rparr>\<rparr>\<rparr> \<and>
     length d1 = B * N \<and> length i1 = B * N \<and> length d2 = B * M \<and> length i2 = B * M \<and>
     (B = 0 \<longrightarrow> d1 = [] \<and> i1 = [] \<and> d2 = [] \<and> i2 = []) \<and>
     (N = 0 \<longrightarrow> d1 = [] \<and> i1 = [] \<and> d2 = replicate (B * M) 0 \<and> i2 = replicate (B * M) 0) \<and>
     (M = 0 \<longrightarrow> d2 = [] \<and> i2 = [] \<and> d1 = replicate (B * N) 0 \<and> i1 = replicate (B * N) 0)"
proof -
  define d1 where "d1 = map (\<lambda>q. fst (nn_result M (flat xyz1_tensor) (flat xyz2_tensor) (q div N) q)) [0..<B * N]"
  define i1 where "i1 = map (\<lambda>q. snd (nn_result M (flat xyz1_tensor) (flat xyz2_tensor) (q div N) q)) [0..<B * N]"
  define d2 where "d2 = map (\<lambda>q. fst (nn_result N (flat xyz2_tensor) (flat xyz1_tensor) (q div M) q)) [0..<B * M]"
  define i2 where "i2 = map (\<lambda>q. snd (nn_result N (flat xyz2_tensor) (flat xyz1_tensor) (q div M) q)) [0..<B * M]"
  have r: "NnDistance2Op_Compute junkf junki xyz1_tensor xyz2_tensor =
       \<lparr>status = OK, allocated = [[B, N], [B, N], [B, M], [B, M]],
        outputs = Some \<lparr>out_dist1 = \<lparr>shape = [B, N], flat = d1\<rparr>, out_idx1 = \<lparr>shape = [B, N], flat = i1\<rparr>,
                        out_dist2 = \<lparr>shape = [B, M], flat = d2\<rparr>, out_idx2 = \<lparr>shape = [B, M], flat = i2\<rparr>\<rparr>\<rparr>"
    unfolding d1_def i1_def d2_def i2_def by (rule Compute_fwd_lists [OF assms])
  have l: "length d1 = B * N" "length i1 = B * N" "length d2 = B * M" "length i2 = B * M"
    by (simp_all add: d1_def i1_def d2_def i2_def)
  have b: "B = 0 \<longrightarrow> d1 = [] \<and> i1 = [] \<and> d2 = [] \<and> i2 = []"
    by (simp add: d1_def i1_def d2_def i2_def)
  have n: "N = 0 \<longrightarrow> d1 = [] \<and> i1 = [] \<and> d2 = replicate (B * M) 0 \<and> i2 = replicate (B * M) 0"
    by (simp add: d1_def i1_def d2_def i2_def nn_result_empty map_replicate_const)
  have m: "M = 0 \<longrightarrow> d2 = [] \<and> i2 = [] \<and> d1 = replicate (B * N) 0 \<and> i1 = replicate (B * N) 0"
    by (simp add: d1_def i1_def d2_def i2_def nn_result_empty map_replicate_const)
  show ?thesis
    by (rule exI [of _ d1], rule exI [of _ i1], rule exI [of _ d2], rule exI [of _ i2])
       (intro conjI r l b n m)
qed

text \<open>An instance with two points against none.\<close>

theorem forward_zero_size_witness:
  "fwd_accepted \<lparr>shape = [1, 2, 6], flat = [1, 2, 3, 4, 5, 6, 7, 8, 9, 10, 11, 12 :: real]\<rparr>
     \<lparr>shape = [1, 0, 6], flat = []\<rparr> 1 2 0 \<and>
   (\<exists>d1 i1 d2 i2.
     NnDistance2Op_Compute ex_mem_f ex_mem_i \<lparr>shape = [1, 2, 6], flat = [1, 2, 3, 4, 5, 6, 7, 8, 9, 10, 11, 12]\<rparr>
        \<lparr>shape = [1, 0, 6], flat = []\<rparr> =
       \<lparr>status = OK, allocated = [[1, 2], [1, 2], [1, 0], [1, 0]],
        outputs = Some \<lparr>out_dist1 = \<lparr>shape = [1, 2], flat = d1\<rparr>, out_idx1 = \<lparr>shape = [1, 2], flat = i1\<rparr>,
                        out_dist2 = \<lparr>shape = [1, 0], flat = d2\<rparr>, out_idx2 = \<lparr>shape = [1, 0], flat = i2\<rparr>\<rparr>\<rparr> \<and>
     d1 = [0, 0] \<and> i1 = [0, 0] \<and> d2 = [] \<and> i2 = [])"
proof -
  have h: "fwd_accepted \<lparr>shape = [1, 2, 6], flat = [1, 2, 3, 4, 5, 6, 7, 8, 9, 10, 11, 12 :: real]\<rparr>
     \<lparr>shape = [1, 0, 6], flat = []\<rparr> 1 2 0"
    by (simp add: fwd_accepted_def wf_tensor_def num_elements_def)
  from forward_zero_size [OF h, of ex_mem_f ex_mem_i]
  obtain d1 i1 d2 i2 where r: "NnDistance2Op_Compute ex_mem_f ex_mem_i \<lparr>shape = [1, 2, 6], flat = [1, 2, 3, 4, 5, 6, 7, 8, 9, 10, 11, 12]\<rparr>
        \<lparr>shape = [1, 0, 6], flat = []\<rparr> =
       \<lparr>status = OK, allocated = [[1, 2], [1, 2], [1, 0], [1, 0]],
        outputs = Some \<lparr>out_dist1 = \<lparr>shape = [1, 2], flat = d1\<rparr>, out_idx1 = \<lparr>shape = [1, 2], flat = i1\<rparr>,
                        out_dist2 = \<lparr>shape = [1, 0], flat = d2\<rparr>, out_idx2 = \<lparr>shape = [1, 0], flat = i2\<rparr>\<rparr>\<rparr>"
    and v: "d2 = [] \<and> i2 = [] \<and> d1 = replicate (1 * 2) 0 \<and> i1 = replicate (1 * 2) 0"
    by auto
  from v have v': "d1 = [0, 0] \<and> i1 = [0, 0] \<and> d2 = [] \<and> i2 = []"
    by (simp add: eval_nat_numeral)
  have "\<exists>d1 i1 d2 i2.
     NnDistance2Op_Compute ex_mem_f ex_mem_i \<lparr>shape = [1, 2, 6], flat = [1, 2, 3, 4, 5, 6, 7, 8, 9, 10, 11, 12]\<rparr>
        \<lparr>shape = [1, 0, 6], flat = []\<rparr> =
       \<lparr>status = OK, allocated = [[1, 2], [1, 2], [1, 0], [1, 0]],
        outputs = Some \<lparr>out_dist1 = \<lparr>shape = [1, 2], flat = d1\<rparr>, out_idx1 = \<lparr>shape = [1, 2], flat = i1\<rparr>,
                        out_dist2 = \<lparr>shape = [1, 0], flat = d2\<rparr>, out_idx2 = \<lparr>shape = [1, 0], flat = i2\<rparr>\<rparr>\<rparr> \<and>
     d1 = [0, 0] \<and> i1 = [0, 0] \<and> d2 = [] \<and> i2 = []"
    by (rule exI [of _ d1], rule exI [of _ i1], rule exI [of _ d2], rule exI [of _ i2])
       (rule conjI [OF r v'])
  with h show ?thesis by (rule conjI)
qed

text \<open>
  C8 as stated fails: with \<open>B = 1\<close>, \<open>N = 2\<close>, \<open>M = 0\<close> the outputs \<open>dist1\<close> and \<open>idx1\<close> are not
  empty, and a distance 0 and an index 0 are written for both points, whose opposite set
  is empty.
\<close>

theorem forward_zero_size_counterexample:
  "NnDistance2Op_Compute ex_mem_f ex_mem_i
     \<lparr>shape = [1, 2, 6], flat = [1, 2, 3, 4, 5, 6, 7, 8, 9, 10, 11, 12]\<rparr> \<lparr>shape = [1, 0, 6], flat = []\<rparr> =
   \<lparr>status = OK, allocated = [[1, 2], [1, 2], [1, 0], [1, 0]],
    outputs = Some \<lparr>out_dist1 = \<lparr>shape = [1, 2], flat = [0, 0]\<rparr>, out_idx1 = \<lparr>shape = [1, 2], flat = [0, 0]\<rparr>,
                    out_dist2 = \<lparr>shape = [1, 0], flat = []\<rparr>, out_idx2 = \<lparr>shape = [1, 0], flat = []\<rparr>\<rparr>\<rparr> \<and>
   [0 :: real, 0] \<noteq> [] \<and> [0 :: int, 0] \<noteq> []"
  by (simp add: NnDistance2Op_Compute_def dims_def dim_size_def allocate_output_def
        num_elements_def Let_def nnsearch_def for_loop_Suc nnsearch_point_def rd_def wr_def
        ex_mem_f_def ex_mem_i_def eval_nat_numeral)




end
